theory Spec2Isabelle
  imports Complex_Main "HOL-Library.Multiset" "HOL-Library.Sublist"
begin

section \<open>Data model (types.ts)\<close>

text \<open>
  A JavaScript \<open>number\<close> is modelled as a \<^typ>\<open>real\<close>: the finite values, with exact
  arithmetic. The code computes in doubles, where every operation rounds its exact
  result; on whole numbers of magnitude up to \<open>2 ^ 53\<close> sums and differences are exact,
  and the model and the code agree to the last bit. The formulas of the statistics are
  stated over the reals. What depends on the last bit of a sum (that two groupings of
  the same amounts add up to the same number, the order of two sums) is stated for
  whole amounts only. The one operation of the aggregation that has no finite result,
  a division by zero, is an error value of the model.
\<close>

datatype TransactionType = EXPENSE | INCOME

record Transaction =
  id_t :: string
  title :: string
  amount :: real
  type :: TransactionType
  date :: string
  timestamp :: int

record DailyStats =
  daysRemaining :: int
  dailyAvailable :: real
  totalSpentThisMonth :: real
  totalIncomeThisMonth :: real
  remainingBudget :: real

datatype error = DivisionByZero

definition js_div :: "real \<Rightarrow> real \<Rightarrow> error + real" where
  "js_div a b = (if b = 0 then Inl DivisionByZero else Inr (a / b))"

section \<open>Dates\<close>

text \<open>
  A \<open>Date\<close> object as the code reads it: the local calendar fields returned by
  \<open>getFullYear\<close>, \<open>getMonth\<close> (0 to 11) and \<open>getDate\<close>, and the milliseconds since
  local midnight. Two dates are compared by their time values; local time grows with
  the time value, so the comparison is the lexicographic one on these fields.
\<close>

record Date =
  getFullYear :: int
  getMonth :: nat
  getDate :: nat
  msOfDay :: nat

definition date_gt :: "Date \<Rightarrow> Date \<Rightarrow> bool" where
  "date_gt a b =
     (getFullYear b < getFullYear a \<or>
      (getFullYear a = getFullYear b \<and>
       (getMonth b < getMonth a \<or>
        (getMonth a = getMonth b \<and>
         (getDate b < getDate a \<or>
          (getDate a = getDate b \<and> msOfDay b < msOfDay a))))))"

definition leap_year :: "int \<Rightarrow> bool" where
  "leap_year y = (y mod 4 = 0 \<and> (y mod 100 \<noteq> 0 \<or> y mod 400 = 0))"

text \<open>
  \<open>new Date(year, month + 1, 0).getDate()\<close>: day 0 of the following month is the last
  day of \<open>month\<close>. The constructor reads a year from 0 to 99 as 1900 + year and carries
  a month index beyond 11 into the year.
\<close>

definition lastDayOf :: "int \<Rightarrow> nat \<Rightarrow> nat" where
  "lastDayOf year month =
     (let y0 = (if 0 \<le> year \<and> year \<le> 99 then 1900 + year else year);
          y = y0 + int (month div 12);
          m = month mod 12
      in if m = 1 then (if leap_year y then 29 else 28)
         else if m = 3 \<or> m = 5 \<or> m = 8 \<or> m = 10 then 30
         else 31)"

text \<open>The dates a clock can return: a month from 0 to 11 and a day of that month.\<close>

definition valid_date :: "Date \<Rightarrow> bool" where
  "valid_date d =
     (getMonth d < 12 \<and> 1 \<le> getDate d \<and> getDate d \<le> lastDayOf (getFullYear d) (getMonth d)
      \<and> msOfDay d < 86400000)"

section \<open>Derived statistics (App.tsx, with month navigation)\<close>

text \<open>
  The computations read \<open>isCurrentMonth\<close>, a flag memoised on the viewed date alone,
  and each reads the clock again as \<open>today\<close>: the flag is an input beside \<open>today\<close>.
  How the flag is computed is defined with the viewed month, below.
\<close>

text \<open>\<open>xs.reduce((sum, t) => sum + t.amount, 0)\<close>\<close>

definition reduce_amount :: "Transaction list \<Rightarrow> real" where
  "reduce_amount xs = foldl (\<lambda>sum t. sum + Transaction.amount t) 0 xs"

definition stats ::
  "Transaction list \<Rightarrow> real \<Rightarrow> Date \<Rightarrow> bool \<Rightarrow> Date \<Rightarrow> error + DailyStats" where
  "stats currentMonthTransactions monthlyBudget viewDate isCurrentMonth today =
     (let totalSpent = reduce_amount (filter (\<lambda>t. type t = EXPENSE) currentMonthTransactions);
          totalIncome = reduce_amount (filter (\<lambda>t. type t = INCOME) currentMonthTransactions);
          remainingBudget = monthlyBudget - totalSpent;
          lastDayOfMonth = lastDayOf (getFullYear viewDate) (getMonth viewDate)
      in if isCurrentMonth then
           (let currentDay = getDate today;
                daysRemaining = max 1 (int lastDayOfMonth - int currentDay + 1)
            in case js_div remainingBudget (of_int daysRemaining) of
                 Inl e \<Rightarrow> Inl e
               | Inr q \<Rightarrow>
                   Inr \<lparr>daysRemaining = daysRemaining, dailyAvailable = max 0 q,
                        totalSpentThisMonth = totalSpent, totalIncomeThisMonth = totalIncome,
                        remainingBudget = remainingBudget\<rparr>)
         else
           Inr \<lparr>daysRemaining = 0, dailyAvailable = 0,
                totalSpentThisMonth = totalSpent, totalIncomeThisMonth = totalIncome,
                remainingBudget = remainingBudget\<rparr>)"

text \<open>The totals the specification speaks of: the sum of the amounts of one kind.\<close>

definition total_of :: "TransactionType \<Rightarrow> Transaction list \<Rightarrow> real" where
  "total_of k xs = sum_list (map Transaction.amount (filter (\<lambda>t. type t = k) xs))"

section \<open>Strings and the built-in functions the code calls\<close>

definition startsWith :: "string \<Rightarrow> string \<Rightarrow> bool" where
  "startsWith s p = (take (length p) s = p)"

text \<open>\<open>s.split(sep)\<close> for a separator of one character: never the empty list.\<close>

fun js_split :: "char \<Rightarrow> string \<Rightarrow> string list" where
  "js_split sep [] = [[]]"
| "js_split sep (c # cs) =
     (if c = sep then [] # js_split sep cs
      else (case js_split sep cs of [] \<Rightarrow> [[c]] | p # ps \<Rightarrow> (c # p) # ps))"

definition is_space :: "char \<Rightarrow> bool" where
  "is_space c = (c = CHR '' '' \<or> c = CHR 0x09 \<or> c = CHR 0x0A \<or> c = CHR 0x0B \<or> c = CHR 0x0C
                 \<or> c = CHR 0x0D)"

definition digit_val :: "char \<Rightarrow> nat option" where
  "digit_val c =
     (let n = (of_char c :: nat)
      in if 48 \<le> n \<and> n \<le> 57 then Some (n - 48)
         else if 97 \<le> n \<and> n \<le> 122 then Some (n - 87)
         else if 65 \<le> n \<and> n \<le> 90 then Some (n - 55)
         else None)"

definition is_digit :: "nat \<Rightarrow> char \<Rightarrow> bool" where
  "is_digit radix c = (case digit_val c of None \<Rightarrow> False | Some v \<Rightarrow> v < radix)"

definition digits_value :: "nat \<Rightarrow> string \<Rightarrow> int" where
  "digits_value radix z =
     foldl (\<lambda>acc c. acc * int radix + (case digit_val c of None \<Rightarrow> 0 | Some v \<Rightarrow> int v)) 0 z"

text \<open>
  \<open>parseInt(s)\<close> with no radix: leading white space and a sign are skipped, a prefix
  \<open>0x\<close> selects radix 16, and the longest run of digits is read. \<open>None\<close> is \<open>NaN\<close>.
  White space is the ASCII white space, and an integer is read exactly.
\<close>

definition parseInt :: "string \<Rightarrow> int option" where
  "parseInt inputString =
     (let s = dropWhile is_space inputString;
          neg = (case s of [] \<Rightarrow> False | c # _ \<Rightarrow> c = CHR ''-'');
          s1 = (case s of [] \<Rightarrow> s | c # r \<Rightarrow> if c = CHR ''+'' \<or> c = CHR ''-'' then r else s);
          hex = (startsWith s1 ''0x'' \<or> startsWith s1 ''0X'');
          radix = (if hex then 16 else 10);
          s2 = (if hex then drop 2 s1 else s1);
          z = takeWhile (is_digit radix) s2
      in if z = [] then None
         else Some ((if neg then - 1 else 1) * digits_value radix z))"

text \<open>
  \<open>parseFloat(s)\<close>: leading white space, a sign, digits, a fraction and an exponent (read
  only when it has a digit); what follows is ignored. \<open>None\<close> is \<open>NaN\<close>. Both amount
  fields are number inputs, whose value is the empty string or a decimal literal; the
  word \<open>Infinity\<close>, which such a field never holds and which has no finite value, is
  not read as a number here.
\<close>

definition exponent_of :: "string \<Rightarrow> int" where
  "exponent_of r =
     (case r of
        [] \<Rightarrow> 0
      | c # r1 \<Rightarrow>
          if c = CHR ''e'' \<or> c = CHR ''E'' then
            (let neg = (case r1 of [] \<Rightarrow> False | d # _ \<Rightarrow> d = CHR ''-'');
                 r2 = (case r1 of [] \<Rightarrow> r1
                       | d # r' \<Rightarrow> if d = CHR ''+'' \<or> d = CHR ''-'' then r' else r1);
                 z = takeWhile (is_digit 10) r2
             in if z = [] then 0 else (if neg then - 1 else 1) * digits_value 10 z)
          else 0)"

definition parseFloat :: "string \<Rightarrow> real option" where
  "parseFloat inputString =
     (let s = dropWhile is_space inputString;
          neg = (case s of [] \<Rightarrow> False | c # _ \<Rightarrow> c = CHR ''-'');
          s1 = (case s of [] \<Rightarrow> s | c # r \<Rightarrow> if c = CHR ''+'' \<or> c = CHR ''-'' then r else s);
          ip = takeWhile (is_digit 10) s1;
          r1 = dropWhile (is_digit 10) s1;
          dot = (case r1 of [] \<Rightarrow> False | c # _ \<Rightarrow> c = CHR ''.'');
          fp = (if dot then takeWhile (is_digit 10) (tl r1) else []);
          r2 = (if dot then dropWhile (is_digit 10) (tl r1) else r1);
          ex = (if ip = [] \<and> fp = [] then 0 else exponent_of r2);
          mant = of_int (digits_value 10 ip) + of_int (digits_value 10 fp) / 10 ^ length fp;
          val = (if 0 \<le> ex then mant * 10 ^ nat ex else mant / 10 ^ nat (- ex))
      in if ip = [] \<and> fp = [] then None
         else Some (if neg then - val else val))"

text \<open>\<open>String(n)\<close> for an integer, and \<open>s.padStart(n, c)\<close>.\<close>

fun string_of_nat :: "nat \<Rightarrow> string" where
  "string_of_nat n =
     (if n < 10 then [''0123456789'' ! n]
      else string_of_nat (n div 10) @ [''0123456789'' ! (n mod 10)])"

definition string_of_int :: "int \<Rightarrow> string" where
  "string_of_int i = (if i < 0 then CHR ''-'' # string_of_nat (nat (- i)) else string_of_nat (nat i))"

definition padStart :: "nat \<Rightarrow> char \<Rightarrow> string \<Rightarrow> string" where
  "padStart n c s = replicate (n - length s) c @ s"

section \<open>Chart series\<close>

record ChartDataPoint =
  date :: string
  income :: real
  expense :: real

text \<open>
  \<open>dayMap\<close>: a \<open>Map\<close> from numbers to a pair (income, expense). The key \<open>None\<close> is
  \<open>NaN\<close>, which a \<open>Map\<close> accepts as one key.
\<close>

type_synonym dayMap = "int option \<rightharpoonup> real \<times> real"

definition init_dayMap :: "nat \<Rightarrow> dayMap" where
  "init_dayMap daysInMonth =
     fold (\<lambda>i m. m(Some (int i) \<mapsto> (0, 0))) [1..<Suc daysInMonth] Map.empty"

text \<open>\<open>parseInt(t.date.split('-')[2])\<close>; a missing third part is \<open>undefined\<close>, read as \<open>NaN\<close>.\<close>

definition day_of :: "Transaction \<Rightarrow> int option" where
  "day_of t =
     (let parts = js_split (CHR ''-'') (Transaction.date t)
      in if 2 < length parts then parseInt (parts ! 2) else None)"

definition fill_day :: "Transaction \<Rightarrow> dayMap \<Rightarrow> dayMap" where
  "fill_day t dayMap =
     (let day = day_of t;
          current = (case dayMap day of None \<Rightarrow> (0, 0) | Some e \<Rightarrow> e);
          current' = (if type t = INCOME then (fst current + Transaction.amount t, snd current)
                      else (fst current, snd current + Transaction.amount t))
      in dayMap(day \<mapsto> current'))"

text \<open>\<open>x || 0\<close> on a number.\<close>

definition or0 :: "real \<Rightarrow> real" where
  "or0 x = (if x = 0 then 0 else x)"

text \<open>The label of day \<open>i\<close>: its decimal form and the character U+65E5, here in UTF-8.\<close>

definition day_label :: "nat \<Rightarrow> string" where
  "day_label i = string_of_nat i @ [CHR 0xE6, CHR 0x97, CHR 0xA5]"

definition chart_point :: "dayMap \<Rightarrow> nat \<Rightarrow> ChartDataPoint" where
  "chart_point dayMap i =
     \<lparr>date = day_label i,
      income = (case dayMap (Some (int i)) of None \<Rightarrow> 0 | Some e \<Rightarrow> or0 (fst e)),
      expense = (case dayMap (Some (int i)) of None \<Rightarrow> 0 | Some e \<Rightarrow> or0 (snd e))\<rparr>"

definition chartData ::
  "Transaction list \<Rightarrow> Date \<Rightarrow> bool \<Rightarrow> Date \<Rightarrow> ChartDataPoint list" where
  "chartData currentMonthTransactions viewDate isCurrentMonth today =
     (let daysInMonth = lastDayOf (getFullYear viewDate) (getMonth viewDate);
          dayMap = fold fill_day currentMonthTransactions (init_dayMap daysInMonth);
          showUntilDay = (if isCurrentMonth then getDate today
                          else if date_gt viewDate today then 0
                          else daysInMonth)
      in map (chart_point dayMap) (filter (\<lambda>i. i \<le> showUntilDay) [1..<Suc daysInMonth]))"

section \<open>Category breakdown\<close>

text \<open>
  \<open>groupMap\<close> is a plain object, \<open>{}\<close>, used as a dictionary from titles to numbers.
  A plain object inherits the members of \<open>Object.prototype\<close>, so what the code reads
  and stores under a title that names one of them is not a number:
  \<^item> \<open>groupMap[k]\<close> is then the inherited function (the prototype itself for
    \<open>__proto__\<close>), which is truthy, and adding the amount to it gives a string;
  \<^item> \<open>groupMap[k] = v\<close> creates an own property, but for \<open>__proto__\<close> it calls the
    inherited setter, which ignores a value that is no object.
  A value of the object is a number or such a string. The text of the string (the
  member's source text followed by the amounts) is not modelled: it never reads as a
  number.
\<close>

datatype jsval = Num real | Str

record CategoryData =
  name :: string
  amount :: jsval
  percentage :: "real option"

text \<open>The own properties of an object, in the order of their creation.\<close>

type_synonym jsobject = "(string \<times> jsval) list"

definition Object_prototype_keys :: "string list" where
  "Object_prototype_keys =
     [''constructor'', ''__defineGetter__'', ''__defineSetter__'', ''hasOwnProperty'',
      ''__lookupGetter__'', ''__lookupSetter__'', ''isPrototypeOf'', ''propertyIsEnumerable'',
      ''toString'', ''valueOf'', ''__proto__'', ''toLocaleString'']"

text \<open>\<open>(obj[k] || 0) + a\<close>\<close>

definition get_or0_plus :: "jsobject \<Rightarrow> string \<Rightarrow> real \<Rightarrow> jsval" where
  "get_or0_plus obj k a =
     (case map_of obj k of
        Some (Num x) \<Rightarrow> Num (or0 x + a)
      | Some Str \<Rightarrow> Str
      | None \<Rightarrow> if k \<in> set Object_prototype_keys then Str else Num (0 + a))"

text \<open>\<open>obj[k] = v\<close>\<close>

fun put :: "jsobject \<Rightarrow> string \<Rightarrow> jsval \<Rightarrow> jsobject" where
  "put [] k v = [(k, v)]"
| "put ((k', v') # ps) k v = (if k' = k then (k, v) # ps else (k', v') # put ps k v)"

definition set_prop :: "jsobject \<Rightarrow> string \<Rightarrow> jsval \<Rightarrow> jsobject" where
  "set_prop obj k v = (if k = ''__proto__'' then obj else put obj k v)"

text \<open>
  \<open>Object.entries(obj)\<close>: the keys that are array indices (the decimal form of a number
  up to 4294967294) first, in ascending numeric order, then the other keys in the order
  of their creation.
\<close>

definition array_index :: "string \<Rightarrow> int option" where
  "array_index k =
     (if k \<noteq> [] \<and> list_all (is_digit 10) k \<and> (k = ''0'' \<or> hd k \<noteq> CHR ''0'')
         \<and> digits_value 10 k \<le> 4294967294
      then Some (digits_value 10 k) else None)"

definition index_key :: "string \<Rightarrow> int" where
  "index_key k = (case array_index k of None \<Rightarrow> 0 | Some n \<Rightarrow> n)"

definition key_order :: "string list \<Rightarrow> string list" where
  "key_order ks =
     sort_key index_key (filter (\<lambda>k. array_index k \<noteq> None) ks)
       @ filter (\<lambda>k. array_index k = None) ks"

definition Object_entries :: "jsobject \<Rightarrow> (string \<times> jsval) list" where
  "Object_entries obj =
     concat (map (\<lambda>k. case map_of obj k of None \<Rightarrow> [] | Some v \<Rightarrow> [(k, v)])
                 (key_order (map fst obj)))"

text \<open>
  \<open>xs.sort(cmp)\<close>: a stable sort, where a result of \<open>cmp\<close> that is \<open>NaN\<close> counts as 0.
  It is modelled by insertion from the right. With a string among the amounts the
  comparison is not consistent and the language leaves the order to the implementation;
  no property below is about that case.
\<close>

fun insert_cmp :: "('a \<Rightarrow> 'a \<Rightarrow> real) \<Rightarrow> 'a \<Rightarrow> 'a list \<Rightarrow> 'a list" where
  "insert_cmp cmp x [] = [x]"
| "insert_cmp cmp x (y # ys) = (if cmp x y \<le> 0 then x # y # ys else y # insert_cmp cmp x ys)"

definition sort_cmp :: "('a \<Rightarrow> 'a \<Rightarrow> real) \<Rightarrow> 'a list \<Rightarrow> 'a list" where
  "sort_cmp cmp xs = foldr (insert_cmp cmp) xs []"

text \<open>\<open>(a, b) => b.amount - a.amount\<close>, with 0 for \<open>NaN\<close>.\<close>

definition compare_amount :: "CategoryData \<Rightarrow> CategoryData \<Rightarrow> real" where
  "compare_amount a b =
     (case (CategoryData.amount b, CategoryData.amount a) of
        (Num y, Num x) \<Rightarrow> y - x
      | _ \<Rightarrow> 0)"

text \<open>\<open>(amount / totalExpense) * 100\<close>; \<open>None\<close> is \<open>NaN\<close>, the quotient of a string.\<close>

definition percentage_of :: "jsval \<Rightarrow> real \<Rightarrow> error + real option" where
  "percentage_of amt totalExpense =
     (case amt of
        Num a \<Rightarrow> (case js_div a totalExpense of Inl e \<Rightarrow> Inl e | Inr q \<Rightarrow> Inr (Some (q * 100)))
      | Str \<Rightarrow> if totalExpense = 0 then Inl DivisionByZero else Inr None)"

definition category_entry :: "real \<Rightarrow> string \<times> jsval \<Rightarrow> error + CategoryData" where
  "category_entry totalExpense p =
     (case percentage_of (snd p) totalExpense of
        Inl e \<Rightarrow> Inl e
      | Inr pc \<Rightarrow> Inr \<lparr>name = fst p, amount = snd p, percentage = pc\<rparr>)"

text \<open>\<open>xs.map(f)\<close> for an \<open>f\<close> that can fail: the first error ends it.\<close>

fun map_result :: "('a \<Rightarrow> error + 'b) \<Rightarrow> 'a list \<Rightarrow> error + 'b list" where
  "map_result f [] = Inr []"
| "map_result f (x # xs) =
     (case f x of
        Inl e \<Rightarrow> Inl e
      | Inr y \<Rightarrow> (case map_result f xs of Inl e \<Rightarrow> Inl e | Inr ys \<Rightarrow> Inr (y # ys)))"

definition group_step :: "Transaction \<Rightarrow> jsobject \<Rightarrow> jsobject" where
  "group_step t groupMap =
     set_prop groupMap (title t) (get_or0_plus groupMap (title t) (Transaction.amount t))"

definition categoryStats :: "Transaction list \<Rightarrow> error + CategoryData list" where
  "categoryStats currentMonthTransactions =
     (let expenses = filter (\<lambda>t. type t = EXPENSE) currentMonthTransactions;
          totalExpense = reduce_amount expenses
      in if totalExpense = 0 then Inr []
         else
           (let groupMap = fold group_step expenses []
            in case map_result (category_entry totalExpense) (Object_entries groupMap) of
                 Inl e \<Rightarrow> Inl e
               | Inr cs \<Rightarrow> Inr (sort_cmp compare_amount cs)))"

section \<open>The earlier App.tsx, which views the current month only\<close>

definition currentMonthStr_old :: "Date \<Rightarrow> string" where
  "currentMonthStr_old today =
     string_of_int (getFullYear today) @ ''-''
       @ padStart 2 (CHR ''0'') (string_of_nat (getMonth today + 1))"

definition stats_old :: "Transaction list \<Rightarrow> real \<Rightarrow> Date \<Rightarrow> error + DailyStats" where
  "stats_old currentMonthTransactions monthlyBudget today =
     (let totalSpent = reduce_amount (filter (\<lambda>t. type t = EXPENSE) currentMonthTransactions);
          totalIncome = reduce_amount (filter (\<lambda>t. type t = INCOME) currentMonthTransactions);
          remainingBudget = monthlyBudget - totalSpent;
          lastDayOfMonth = lastDayOf (getFullYear today) (getMonth today);
          currentDay = getDate today;
          daysRemaining = max 1 (int lastDayOfMonth - int currentDay + 1)
      in case js_div remainingBudget (of_int daysRemaining) of
           Inl e \<Rightarrow> Inl e
         | Inr q \<Rightarrow>
             Inr \<lparr>daysRemaining = daysRemaining, dailyAvailable = max 0 q,
                  totalSpentThisMonth = totalSpent, totalIncomeThisMonth = totalIncome,
                  remainingBudget = remainingBudget\<rparr>)"

definition chartData_old :: "Transaction list \<Rightarrow> Date \<Rightarrow> ChartDataPoint list" where
  "chartData_old currentMonthTransactions today =
     (let daysInMonth = lastDayOf (getFullYear today) (getMonth today);
          dayMap = fold fill_day currentMonthTransactions (init_dayMap daysInMonth)
      in map (chart_point dayMap) (filter (\<lambda>i. i \<le> getDate today) [1..<Suc daysInMonth]))"

definition categoryStats_old :: "Transaction list \<Rightarrow> error + CategoryData list" where
  "categoryStats_old currentMonthTransactions =
     (let expenses = filter (\<lambda>t. type t = EXPENSE) currentMonthTransactions;
          totalExpense = reduce_amount expenses
      in if totalExpense = 0 then Inr []
         else
           (let groupMap = fold group_step expenses []
            in case map_result (category_entry totalExpense) (Object_entries groupMap) of
                 Inl e \<Rightarrow> Inl e
               | Inr cs \<Rightarrow> Inr (sort_cmp compare_amount cs)))"

section \<open>The transactions of the viewed month\<close>

definition currentMonthStr :: "Date \<Rightarrow> string" where
  "currentMonthStr viewDate =
     string_of_int (getFullYear viewDate) @ ''-''
       @ padStart 2 (CHR ''0'') (string_of_nat (getMonth viewDate + 1))"

definition currentMonthTransactions :: "Transaction list \<Rightarrow> Date \<Rightarrow> Transaction list" where
  "currentMonthTransactions transactions viewDate =
     filter (\<lambda>t. startsWith (Transaction.date t) (currentMonthStr viewDate)) transactions"

definition currentMonthTransactions_old :: "Transaction list \<Rightarrow> Date \<Rightarrow> Transaction list" where
  "currentMonthTransactions_old transactions today =
     filter (\<lambda>t. startsWith (Transaction.date t) (currentMonthStr_old today)) transactions"

section \<open>Handlers\<close>

text \<open>
  The state of the page that the handlers read and write (the advice text and its
  loading flag are left out). The later App.tsx adds the viewed date.
\<close>

record App_old =
  transactions :: "Transaction list"
  monthlyBudget :: real
  newTransTitle :: string
  newTransAmount :: string
  newTransType :: TransactionType
  isBudgetModalOpen :: bool
  tempBudgetInput :: string

record App = App_old +
  viewDate :: Date

text \<open>
  What a handler reads from the clock at one instant: \<open>new Date()\<close> through its local
  calendar fields, \<open>new Date().toISOString()\<close>, which is the same instant written in
  UTC, and \<open>Date.now()\<close>. The later handler also reads the memoised flag
  \<open>isCurrentMonth\<close>.
\<close>

record Clock =
  now :: Date
  toISOString :: string
  nowMs :: int

definition handleAddTransaction :: "Clock \<Rightarrow> bool \<Rightarrow> string \<Rightarrow> App \<Rightarrow> App" where
  "handleAddTransaction clock isCurrentMonth randomUUID st =
     (if newTransTitle st = [] \<or> newTransAmount st = [] then st
      else
        (case parseFloat (newTransAmount st) of
           None \<Rightarrow> st
         | Some amt \<Rightarrow>
             if amt \<le> 0 then st
             else
               (let todayStr = hd (js_split (CHR ''T'') (toISOString clock));
                    newTransaction =
                      \<lparr>id_t = randomUUID, title = newTransTitle st, amount = amt,
                       type = newTransType st, date = todayStr, timestamp = nowMs clock\<rparr>;
                    st1 = st\<lparr>transactions := newTransaction # transactions st,
                             newTransTitle := [], newTransAmount := []\<rparr>
                in if \<not> isCurrentMonth
                   then st1\<lparr>viewDate := now clock\<rparr>
                   else st1)))"

definition handleAddTransaction_old :: "Clock \<Rightarrow> string \<Rightarrow> App_old \<Rightarrow> App_old" where
  "handleAddTransaction_old clock randomUUID st =
     (if newTransTitle st = [] \<or> newTransAmount st = [] then st
      else
        (case parseFloat (newTransAmount st) of
           None \<Rightarrow> st
         | Some amt \<Rightarrow>
             if amt \<le> 0 then st
             else
               (let newTransaction =
                      \<lparr>id_t = randomUUID, title = newTransTitle st, amount = amt,
                       type = newTransType st,
                       date = hd (js_split (CHR ''T'') (toISOString clock)),
                       timestamp = nowMs clock\<rparr>
                in st\<lparr>transactions := newTransaction # transactions st,
                       newTransTitle := [], newTransAmount := []\<rparr>)))"

definition saveBudget :: "App \<Rightarrow> App" where
  "saveBudget st =
     (case parseFloat (tempBudgetInput st) of
        None \<Rightarrow> st
      | Some val \<Rightarrow>
          if val > 0 then st\<lparr>monthlyBudget := val, isBudgetModalOpen := False\<rparr> else st)"

definition saveBudget_old :: "App_old \<Rightarrow> App_old" where
  "saveBudget_old st =
     (case parseFloat (tempBudgetInput st) of
        None \<Rightarrow> st
      | Some val \<Rightarrow>
          if val > 0 then st\<lparr>monthlyBudget := val, isBudgetModalOpen := False\<rparr> else st)"

section \<open>The memoised flag\<close>

text \<open>
  \<open>isCurrentMonth\<close> is a memo on \<open>[viewDate]\<close>: it is computed when the viewed date
  changes, from the viewed date and the clock at that time, and it is read unchanged
  until the viewed date changes again.
\<close>

definition isCurrentMonth :: "Date \<Rightarrow> Date \<Rightarrow> bool" where
  "isCurrentMonth view today =
     (getMonth view = getMonth today \<and> getFullYear view = getFullYear today)"

section \<open>The quantities the specification speaks of\<close>

text \<open>
  A calendar date in the form \<open>YYYY-MM-DD\<close> and its day of the month, read off the two
  last characters.
\<close>

definition is_dec :: "char \<Rightarrow> bool" where
  "is_dec c = (48 \<le> (of_char c :: nat) \<and> (of_char c :: nat) \<le> 57)"

definition dec_value :: "char \<Rightarrow> nat" where
  "dec_value c = of_char c - 48"

fun wf_date :: "string \<Rightarrow> bool" where
  "wf_date [y1, y2, y3, y4, h1, m1, m2, h2, d1, d2] =
     (h1 = CHR ''-'' \<and> h2 = CHR ''-''
      \<and> is_dec y1 \<and> is_dec y2 \<and> is_dec y3 \<and> is_dec y4
      \<and> is_dec m1 \<and> is_dec m2 \<and> is_dec d1 \<and> is_dec d2)"
| "wf_date _ = False"

fun date_day :: "string \<Rightarrow> nat" where
  "date_day [y1, y2, y3, y4, h1, m1, m2, h2, d1, d2] = 10 * dec_value d1 + dec_value d2"
| "date_day _ = 0"

text \<open>
  Whole amounts: every amount is a whole number and their magnitudes add up to at most
  \<open>2 ^ 53\<close>, so that every sum the code forms of them is exact in doubles.
\<close>

definition whole_amounts :: "Transaction list \<Rightarrow> bool" where
  "whole_amounts xs =
     (list_all (\<lambda>t. Transaction.amount t \<in> \<int>) xs
      \<and> sum_list (map (\<lambda>t. \<bar>Transaction.amount t\<bar>) xs) \<le> 2 ^ 53)"

text \<open>
  The amounts of one kind dated on day \<open>i\<close> of the month, the chart point the
  specification describes for day \<open>i\<close>, and the order of two months.
\<close>

definition day_total :: "TransactionType \<Rightarrow> Transaction list \<Rightarrow> nat \<Rightarrow> real" where
  "day_total k xs i =
     sum_list (map Transaction.amount
       (filter (\<lambda>t. type t = k \<and> date_day (Transaction.date t) = i) xs))"

definition day_point :: "Transaction list \<Rightarrow> nat \<Rightarrow> ChartDataPoint" where
  "day_point xs i =
     \<lparr>date = day_label i, income = day_total INCOME xs i, expense = day_total EXPENSE xs i\<rparr>"

text \<open>The same with the day that the code parses, for the proofs.\<close>

definition parsed_total :: "TransactionType \<Rightarrow> Transaction list \<Rightarrow> int option \<Rightarrow> real" where
  "parsed_total k xs d =
     sum_list (map Transaction.amount (filter (\<lambda>t. type t = k \<and> day_of t = d) xs))"

definition parsed_point :: "Transaction list \<Rightarrow> nat \<Rightarrow> ChartDataPoint" where
  "parsed_point xs i =
     \<lparr>date = day_label i,
      income = parsed_total INCOME xs (Some (int i)),
      expense = parsed_total EXPENSE xs (Some (int i))\<rparr>"

definition later_month :: "Date \<Rightarrow> Date \<Rightarrow> bool" where
  "later_month a b =
     (getFullYear b < getFullYear a \<or> (getFullYear a = getFullYear b \<and> getMonth b < getMonth a))"

text \<open>
  The days of the viewed month that the chart emits, for a value of the flag, and the
  transactions dated on one of them.
\<close>

definition shown_days :: "Date \<Rightarrow> bool \<Rightarrow> Date \<Rightarrow> nat list" where
  "shown_days view flag today =
     (let n = lastDayOf (getFullYear view) (getMonth view)
      in if flag then [1..<Suc (min (getDate today) n)]
         else if date_gt view today then []
         else [1..<Suc n])"

definition on_shown_day :: "Date \<Rightarrow> bool \<Rightarrow> Date \<Rightarrow> Transaction \<Rightarrow> bool" where
  "on_shown_day view flag today t =
     (date_day (Transaction.date t) \<in> set (shown_days view flag today))"

text \<open>
  The groups of the category breakdown: the titles in the order they are first met, the
  sum of the expenses of one title, and the slice of one title.
\<close>

fun first_seen :: "'a list \<Rightarrow> 'a list" where
  "first_seen [] = []"
| "first_seen (x # xs) = x # first_seen (filter (\<lambda>y. y \<noteq> x) xs)"

definition group_amount :: "Transaction list \<Rightarrow> string \<Rightarrow> real" where
  "group_amount xs k =
     sum_list (map Transaction.amount (filter (\<lambda>t. type t = EXPENSE \<and> title t = k) xs))"

definition slice :: "Transaction list \<Rightarrow> string \<Rightarrow> CategoryData" where
  "slice xs k =
     \<lparr>name = k, amount = Num (group_amount xs k),
      percentage = Some (100 * group_amount xs k / total_of EXPENSE xs)\<rparr>"

definition slice_amount :: "CategoryData \<Rightarrow> real" where
  "slice_amount c = (case CategoryData.amount c of Num x \<Rightarrow> x | Str \<Rightarrow> 0)"

text \<open>
  The groups in the order in which \<open>Object.entries\<close> lists their titles, and the sum of
  the percentages of a list of slices (\<open>None\<close>, for \<open>NaN\<close>, as soon as one of them is).
\<close>

definition groups :: "Transaction list \<Rightarrow> CategoryData list" where
  "groups xs =
     map (slice xs) (key_order (first_seen (map title (filter (\<lambda>t. type t = EXPENSE) xs))))"

fun sum_percentages :: "CategoryData list \<Rightarrow> real option" where
  "sum_percentages [] = Some 0"
| "sum_percentages (c # cs) =
     (case (percentage c, sum_percentages cs) of
        (Some p, Some s) \<Rightarrow> Some (p + s)
      | _ \<Rightarrow> None)"

definition title_sum :: "Transaction list \<Rightarrow> string \<Rightarrow> real" where
  "title_sum xs k = sum_list (map Transaction.amount (filter (\<lambda>t. title t = k) xs))"

text \<open>The chart point of a day without transactions.\<close>

definition zero_point :: "nat \<Rightarrow> ChartDataPoint" where
  "zero_point i = \<lparr>date = day_label i, income = 0, expense = 0\<rparr>"

text \<open>A run of budget updates: each types a text into the budget field and saves.\<close>

definition update_budget :: "string \<Rightarrow> App \<Rightarrow> App" where
  "update_budget input st = saveBudget (st\<lparr>tempBudgetInput := input\<rparr>)"

definition update_budget_old :: "string \<Rightarrow> App_old \<Rightarrow> App_old" where
  "update_budget_old input st = saveBudget_old (st\<lparr>tempBudgetInput := input\<rparr>)"

text \<open>The percentage of one entry once the total is known not to be zero.\<close>

definition percent :: "real \<Rightarrow> jsval \<Rightarrow> real option" where
  "percent tot v = (case v of Num a \<Rightarrow> Some (a / tot * 100) | Str \<Rightarrow> None)"

section \<open>Example data\<close>

definition june2 :: Date where
  "june2 = \<lparr>getFullYear = 2024, getMonth = 5, getDate = 2, msOfDay = 0\<rparr>"

definition may20 :: Date where
  "may20 = \<lparr>getFullYear = 2024, getMonth = 4, getDate = 20, msOfDay = 0\<rparr>"

definition july1 :: Date where
  "july1 = \<lparr>getFullYear = 2024, getMonth = 6, getDate = 1, msOfDay = 0\<rparr>"

definition entry :: "real \<Rightarrow> TransactionType \<Rightarrow> string \<Rightarrow> string \<Rightarrow> Transaction" where
  "entry a k ttl d =
     \<lparr>id_t = ''id'', title = ttl, amount = a, type = k, date = d, timestamp = 0\<rparr>"

text \<open>
  The scenario of the specification: an expense of 100 on day 1 and an income of 50 on
  day 2, viewed on day 2 of a month of 30 days.
\<close>

definition scenario :: "Transaction list" where
  "scenario = [entry 100 EXPENSE ''Rent'' ''2024-06-01'', entry 50 INCOME ''Gift'' ''2024-06-02'']"

text \<open>An income dated three days after the day it is viewed on.\<close>

definition late_income :: "Transaction list" where
  "late_income = [entry 50 INCOME ''Gift'' ''2024-06-05'']"

definition june20 :: Date where
  "june20 = \<lparr>getFullYear = 2024, getMonth = 5, getDate = 20, msOfDay = 0\<rparr>"


text \<open>Two groups of equal amount, with titles that are words and with titles that are numbers.\<close>

definition ties :: "Transaction list" where
  "ties =
     [entry 10 EXPENSE ''Bus'' ''2024-06-01'', entry 10 EXPENSE ''Apple'' ''2024-06-01'',
      entry 20 EXPENSE ''Cake'' ''2024-06-02'']"


text \<open>Expenses with a title that names a member of \<open>Object.prototype\<close>.\<close>

definition proto_only :: "Transaction list" where
  "proto_only = [entry 30 EXPENSE ''__proto__'' ''2024-06-01'']"

definition proto_tea :: "Transaction list" where
  "proto_tea =
     [entry 30 EXPENSE ''__proto__'' ''2024-06-01'', entry 10 EXPENSE ''Tea'' ''2024-06-02'']"

definition proto_constructor :: "Transaction list" where
  "proto_constructor = [entry 30 EXPENSE ''constructor'' ''2024-06-01'']"

text \<open>
  The clock at 07:00 on 1 March 2024 in a time zone eight hours ahead of UTC, where it
  is 23:00 on 29 February, and the form filled in with a title and an amount.
\<close>

definition march1 :: Date where
  "march1 = \<lparr>getFullYear = 2024, getMonth = 2, getDate = 1, msOfDay = 25200000\<rparr>"

definition march1_clock :: Clock where
  "march1_clock =
     \<lparr>now = march1, toISOString = ''2024-02-29T23:00:00.000Z'', nowMs = 1709247600000\<rparr>"

definition form_old :: App_old where
  "form_old =
     \<lparr>transactions = [], monthlyBudget = 5000, newTransTitle = ''Coffee'',
      newTransAmount = ''30'', newTransType = EXPENSE, isBudgetModalOpen = True,
      tempBudgetInput = ''3000''\<rparr>"

definition form :: App where
  "form =
     \<lparr>transactions = [], monthlyBudget = 5000, newTransTitle = ''Coffee'',
      newTransAmount = ''30'', newTransType = EXPENSE, isBudgetModalOpen = True,
      tempBudgetInput = ''3000'', viewDate = march1\<rparr>"

text \<open>
  A page opened on 31 January 2024 and still open on 15 February, with an expense dated
  20 January; and a page on which February was selected on 20 January (the viewed date
  moves from 10 January to 10 February) and which is still open on 15 February, with an
  expense dated 1 February.
\<close>

definition jan31 :: Date where
  "jan31 = \<lparr>getFullYear = 2024, getMonth = 0, getDate = 31, msOfDay = 0\<rparr>"

definition jan20 :: Date where
  "jan20 = \<lparr>getFullYear = 2024, getMonth = 0, getDate = 20, msOfDay = 0\<rparr>"

definition feb10 :: Date where
  "feb10 = \<lparr>getFullYear = 2024, getMonth = 1, getDate = 10, msOfDay = 0\<rparr>"

definition feb15 :: Date where
  "feb15 = \<lparr>getFullYear = 2024, getMonth = 1, getDate = 15, msOfDay = 0\<rparr>"

definition january :: "Transaction list" where
  "january = [entry 100 EXPENSE ''Rent'' ''2024-01-20'']"

definition february :: "Transaction list" where
  "february = [entry 100 EXPENSE ''Rent'' ''2024-02-01'']"

text \<open>Three transactions of June 2024, one of them dated after the day it is viewed on.\<close>

definition spread :: "Transaction list" where
  "spread =
     [entry 100 EXPENSE ''Rent'' ''2024-06-01'', entry 50 INCOME ''Gift'' ''2024-06-12'',
      entry 70 INCOME ''Bonus'' ''2024-06-25'']"

section \<open>Sums and totals\<close>

lemma foldl_amount:
  "foldl (\<lambda>sum t. sum + Transaction.amount t) a xs = a + sum_list (map Transaction.amount xs)"
  by (induction xs arbitrary: a) simp_all

lemma reduce_amount_sum: "reduce_amount xs = sum_list (map Transaction.amount xs)"
  by (simp add: reduce_amount_def foldl_amount)

lemma reduce_amount_total: "reduce_amount (filter (\<lambda>t. type t = k) xs) = total_of k xs"
  by (simp add: reduce_amount_sum total_of_def)

lemma sum_list_delta:
  "distinct ks \<Longrightarrow> sum_list (map (\<lambda>k. if c = k then (a::real) else 0) ks) = (if c \<in> set ks then a else 0)"
  by (induction ks) auto

lemma sum_by_key:
  "distinct ks \<Longrightarrow>
   sum_list (map (\<lambda>k. sum_list (map f (filter (\<lambda>t. P t \<and> g t = k) xs))) ks) =
   (sum_list (map f (filter (\<lambda>t. P t \<and> g t \<in> set ks) xs)) :: real)"
proof (induction xs)
  case Nil
  show ?case by simp
next
  case (Cons x xs)
  have "sum_list (map (\<lambda>k. sum_list (map f (filter (\<lambda>t. P t \<and> g t = k) (x # xs)))) ks) =
        sum_list (map (\<lambda>k. (if g x = k then (if P x then f x else 0) else 0)
                            + sum_list (map f (filter (\<lambda>t. P t \<and> g t = k) xs))) ks)"
    by (rule arg_cong [where f = sum_list]) simp
  also have "\<dots> = (if g x \<in> set ks then (if P x then f x else 0) else 0)
                   + sum_list (map f (filter (\<lambda>t. P t \<and> g t \<in> set ks) xs))"
    using Cons by (simp add: sum_list_addf sum_list_delta)
  finally show ?case by simp
qed

section \<open>The derived statistics\<close>

lemma stats_eval:
  "stats sub budget view flag today =
     Inr \<lparr>daysRemaining =
            (if flag
             then max 1 (int (lastDayOf (getFullYear view) (getMonth view)) - int (getDate today) + 1)
             else 0),
          dailyAvailable =
            (if flag
             then max 0 ((budget - total_of EXPENSE sub)
                    / of_int (max 1 (int (lastDayOf (getFullYear view) (getMonth view))
                                      - int (getDate today) + 1)))
             else 0),
          totalSpentThisMonth = total_of EXPENSE sub,
          totalIncomeThisMonth = total_of INCOME sub,
          remainingBudget = budget - total_of EXPENSE sub\<rparr>"
proof -
  have nz: "max 1 (int (lastDayOf (getFullYear view) (getMonth view)) - int (getDate today) + 1)
            \<noteq> 0"
    by (simp add: max_def)
  show ?thesis
    using nz by (simp add: stats_def Let_def js_div_def reduce_amount_total)
qed

text \<open>
  With a flag computed from the same \<open>today\<close>, the statistics are those of the viewed
  month as the current month or not.
\<close>

lemma stats_fresh_flag:
  "\<exists>s. stats sub budget view (isCurrentMonth view today) today = Inr s
     \<and> totalSpentThisMonth s = total_of EXPENSE sub
     \<and> totalIncomeThisMonth s = total_of INCOME sub
     \<and> remainingBudget s = budget - total_of EXPENSE sub
     \<and> (isCurrentMonth view today \<longrightarrow>
          daysRemaining s =
            max 1 (int (lastDayOf (getFullYear view) (getMonth view)) - int (getDate today) + 1)
          \<and> dailyAvailable s = max 0 (remainingBudget s / of_int (daysRemaining s)))
     \<and> (\<not> isCurrentMonth view today \<longrightarrow> daysRemaining s = 0 \<and> dailyAvailable s = 0)"
  by (simp add: stats_eval)

text \<open>
  Every sum that the code forms of whole amounts is the sum of a subsequence of the
  list: a whole number of magnitude at most \<open>2 ^ 53\<close>.
\<close>

lemma abs_sum_nonneg: "0 \<le> sum_list (map (\<lambda>t. \<bar>Transaction.amount t\<bar>) xs)"
  by (induction xs) simp_all

lemma abs_sum_subseq:
  "subseq ys xs \<Longrightarrow>
   sum_list (map (\<lambda>t. \<bar>Transaction.amount t\<bar>) ys)
     \<le> sum_list (map (\<lambda>t. \<bar>Transaction.amount t\<bar>) xs)"
proof (induction rule: list_emb.induct)
  case (list_emb_Nil ys)
  show ?case by (simp add: abs_sum_nonneg)
next
  case (list_emb_Cons xs ys y)
  then show ?case by (simp add: order_trans [OF _ le_add_same_cancel2 [THEN iffD2]])
next
  case (list_emb_Cons2 x y xs ys)
  then show ?case by simp
qed

lemma whole_amounts_subseq:
  assumes "whole_amounts xs" "subseq ys xs"
  shows "sum_list (map Transaction.amount ys) \<in> \<int>
       \<and> \<bar>sum_list (map Transaction.amount ys)\<bar> \<le> 2 ^ 53"
proof -
  have "set ys \<subseteq> set xs"
    using assms(2) by (auto dest: list_emb_set)
  then have all: "\<forall>t \<in> set ys. Transaction.amount t \<in> \<int>"
    using assms(1) by (auto simp: whole_amounts_def list_all_iff)
  have "sum_list (map Transaction.amount ys) \<in> \<int>"
    using all by (induction ys) auto
  moreover have "\<bar>sum_list (map Transaction.amount ys)\<bar>
                 \<le> sum_list (map (\<lambda>t. \<bar>Transaction.amount t\<bar>) ys)"
    by (induction ys) auto
  ultimately show ?thesis
    using abs_sum_subseq [OF assms(2)] assms(1) by (simp add: whole_amounts_def)
qed

section \<open>The category breakdown never fails\<close>

lemma map_result_Inr:
  "(\<And>x. x \<in> set xs \<Longrightarrow> f x = Inr (g x)) \<Longrightarrow> map_result f xs = Inr (map g xs)"
  by (induction xs) simp_all

lemma category_entry_Inr:
  "tot \<noteq> 0 \<Longrightarrow>
   category_entry tot p = Inr \<lparr>name = fst p, amount = snd p, percentage = percent tot (snd p)\<rparr>"
  by (simp add: category_entry_def percentage_of_def js_div_def percent_def split: jsval.splits)

lemma categoryStats_Inr:
  "categoryStats sub =
     Inr (if total_of EXPENSE sub = 0 then []
          else sort_cmp compare_amount
                 (map (\<lambda>p. \<lparr>name = fst p, amount = snd p, percentage = percent (total_of EXPENSE sub) (snd p)\<rparr>)
                      (Object_entries (fold group_step (filter (\<lambda>t. type t = EXPENSE) sub) []))))"
  by (simp add: categoryStats_def Let_def reduce_amount_total map_result_Inr [OF category_entry_Inr])

section \<open>The chart series\<close>

lemma type_not_INCOME: "(type t \<noteq> INCOME) = (type t = EXPENSE)"
  by (cases "type t") simp_all

lemma or0_id: "or0 x = x"
  by (simp add: or0_def)

lemma fill_day_lookup:
  "(case fill_day t m k of None \<Rightarrow> (0, 0) | Some e \<Rightarrow> e) =
     (fst (case m k of None \<Rightarrow> (0, 0) | Some e \<Rightarrow> e)
        + (if type t = INCOME \<and> day_of t = k then Transaction.amount t else 0),
      snd (case m k of None \<Rightarrow> (0, 0) | Some e \<Rightarrow> e)
        + (if type t = EXPENSE \<and> day_of t = k then Transaction.amount t else 0))"
  by (cases "type t") (simp_all add: fill_day_def Let_def)

lemma fold_fill_day:
  "(case fold fill_day xs m k of None \<Rightarrow> (0, 0) | Some e \<Rightarrow> e) =
     (fst (case m k of None \<Rightarrow> (0, 0) | Some e \<Rightarrow> e) + parsed_total INCOME xs k,
      snd (case m k of None \<Rightarrow> (0, 0) | Some e \<Rightarrow> e) + parsed_total EXPENSE xs k)"
proof (induction xs arbitrary: m)
  case Nil
  show ?case by (simp add: parsed_total_def)
next
  case (Cons t xs)
  have "(case fold fill_day (t # xs) m k of None \<Rightarrow> (0, 0) | Some e \<Rightarrow> e) =
        (case fold fill_day xs (fill_day t m) k of None \<Rightarrow> (0, 0) | Some e \<Rightarrow> e)"
    by simp
  also have "\<dots> =
     (fst (case fill_day t m k of None \<Rightarrow> (0, 0) | Some e \<Rightarrow> e) + parsed_total INCOME xs k,
      snd (case fill_day t m k of None \<Rightarrow> (0, 0) | Some e \<Rightarrow> e) + parsed_total EXPENSE xs k)"
    by (rule Cons.IH)
  also have "\<dots> =
     (fst (case m k of None \<Rightarrow> (0, 0) | Some e \<Rightarrow> e) + parsed_total INCOME (t # xs) k,
      snd (case m k of None \<Rightarrow> (0, 0) | Some e \<Rightarrow> e) + parsed_total EXPENSE (t # xs) k)"
    by (simp add: fill_day_lookup parsed_total_def)
  finally show ?case .
qed

lemma fold_init_dayMap:
  "(case m k of None \<Rightarrow> (0, 0) | Some e \<Rightarrow> e) = (0, 0) \<Longrightarrow>
   (case fold (\<lambda>i m. m(Some (int i) \<mapsto> (0, 0))) js m k of None \<Rightarrow> (0, 0) | Some e \<Rightarrow> e)
     = (0::real, 0::real)"
  by (induction js arbitrary: m) simp_all

lemma init_dayMap_zero:
  "(case init_dayMap n k of None \<Rightarrow> (0, 0) | Some e \<Rightarrow> e) = (0, 0)"
  unfolding init_dayMap_def by (rule fold_init_dayMap) simp

lemma chart_point_parsed_point:
  "chart_point (fold fill_day xs (init_dayMap n)) i = parsed_point xs i"
proof -
  let ?m = "fold fill_day xs (init_dayMap n)"
  have "(case ?m (Some (int i)) of None \<Rightarrow> (0, 0) | Some e \<Rightarrow> e) =
          (parsed_total INCOME xs (Some (int i)), parsed_total EXPENSE xs (Some (int i)))"
    by (simp add: fold_fill_day init_dayMap_zero)
  then show ?thesis
    by (cases "?m (Some (int i))") (simp_all add: chart_point_def parsed_point_def or0_id)
qed

lemma chart_point_parsed_point_fun:
  "chart_point (fold fill_day xs (init_dayMap n)) = parsed_point xs"
  by (rule ext) (rule chart_point_parsed_point)

lemma filter_le_upt: "filter (\<lambda>i. i \<le> k) [1..<Suc n] = [1..<Suc (min k n)]"
  by (induction n) (auto simp: min_def)

lemma shown_days_filter:
  "shown_days view flag today =
     filter (\<lambda>i. i \<le> (if flag then getDate today
                       else if date_gt view today then 0
                       else lastDayOf (getFullYear view) (getMonth view)))
            [1..<Suc (lastDayOf (getFullYear view) (getMonth view))]"
  unfolding filter_le_upt shown_days_def Let_def
  by (simp del: upt_Suc)

lemma chartData_parsed:
  "chartData sub view flag today = map (parsed_point sub) (shown_days view flag today)"
  unfolding shown_days_filter chartData_def Let_def chart_point_parsed_point_fun ..

text \<open>
  The day that the code parses from a date in the form \<open>YYYY-MM-DD\<close> is its day of the
  month.
\<close>

lemma is_dec_facts:
  assumes "is_dec c"
  shows "c \<noteq> CHR ''-''" "c \<noteq> CHR ''+''" "\<not> is_space c" "c \<noteq> CHR ''x''" "c \<noteq> CHR ''X''"
    "digit_val c = Some (dec_value c)" "dec_value c < 10" "is_digit 10 c"
  using assms
  by (auto simp: is_dec_def is_space_def digit_val_def dec_value_def is_digit_def)

lemma js_split_no_sep:
  "sep \<notin> set cs \<Longrightarrow> js_split sep (cs @ sep # rest) = cs # js_split sep rest"
  by (induction cs) (auto split: list.splits)

lemma js_split_last: "sep \<notin> set cs \<Longrightarrow> js_split sep cs = [cs]"
  by (induction cs) (auto split: list.splits)

lemma parseInt_two_digits:
  assumes "is_dec d1" "is_dec d2"
  shows "parseInt [d1, d2] = Some (int (10 * dec_value d1 + dec_value d2))"
proof -
  have sp: "dropWhile is_space [d1, d2] = [d1, d2]"
    using assms(1) by (simp add: is_dec_facts(3))
  have sg: "d1 \<noteq> CHR ''-''" "d1 \<noteq> CHR ''+''"
    using assms(1) by (simp_all add: is_dec_facts)
  have hx: "\<not> startsWith [d1, d2] ''0x''" "\<not> startsWith [d1, d2] ''0X''"
    using assms(2) by (simp_all add: startsWith_def is_dec_facts)
  have tw: "takeWhile (is_digit 10) [d1, d2] = [d1, d2]"
    using assms by (simp add: is_dec_facts(8))
  have dv: "digits_value 10 [d1, d2] = int (10 * dec_value d1 + dec_value d2)"
    using assms by (simp add: digits_value_def is_dec_facts(6))
  have neg: "(case [d1, d2] of [] \<Rightarrow> False | c # _ \<Rightarrow> c = CHR ''-'') = False"
    using sg by simp
  have s1: "(case [d1, d2] of [] \<Rightarrow> [d1, d2]
             | c # r \<Rightarrow> if c = CHR ''+'' \<or> c = CHR ''-'' then r else [d1, d2]) = [d1, d2]"
    using sg by simp
  have hex: "(startsWith [d1, d2] ''0x'' \<or> startsWith [d1, d2] ''0X'') = False"
    using hx by simp
  show ?thesis
    unfolding parseInt_def Let_def sp neg s1 hex if_False tw dv
    by simp
qed

lemma day_of_chars:
  assumes s: "Transaction.date t = [y1, y2, y3, y4, CHR ''-'', m1, m2, CHR ''-'', d1, d2]"
    and y: "is_dec y1" "is_dec y2" "is_dec y3" "is_dec y4"
    and m: "is_dec m1" "is_dec m2"
    and d: "is_dec d1" "is_dec d2"
  shows "day_of t = Some (int (date_day (Transaction.date t)))"
proof -
  have n: "CHR ''-'' \<notin> set [y1, y2, y3, y4]" "CHR ''-'' \<notin> set [m1, m2]"
    "CHR ''-'' \<notin> set [d1, d2]"
    using y m d is_dec_facts(1) by auto
  have "js_split (CHR ''-'') ([y1, y2, y3, y4] @ CHR ''-'' # [m1, m2] @ CHR ''-'' # [d1, d2])
        = [[y1, y2, y3, y4], [m1, m2], [d1, d2]]"
    by (simp only: js_split_no_sep [OF n(1)] js_split_no_sep [OF n(2)] js_split_last [OF n(3)])
  then have split:
    "js_split (CHR ''-'') (Transaction.date t) = [[y1, y2, y3, y4], [m1, m2], [d1, d2]]"
    by (simp add: s)
  have dd: "date_day (Transaction.date t) = 10 * dec_value d1 + dec_value d2"
    unfolding s by (rule date_day.simps(1))
  have nth: "[[y1, y2, y3, y4], [m1, m2], [d1, d2]] ! 2 = [d1, d2]"
    by simp
  show ?thesis
    unfolding day_of_def Let_def split dd nth parseInt_two_digits [OF d]
    by simp
qed

lemma day_of_wf:
  assumes "wf_date (Transaction.date t)"
  shows "day_of t = Some (int (date_day (Transaction.date t)))"
proof (cases "Transaction.date t" rule: wf_date.cases)
  case (1 y1 y2 y3 y4 h1 m1 m2 h2 d1 d2)
  with assms have "h1 = CHR ''-''" "h2 = CHR ''-''" "is_dec y1" "is_dec y2" "is_dec y3"
    "is_dec y4" "is_dec m1" "is_dec m2" "is_dec d1" "is_dec d2"
    by simp_all
  with 1 show ?thesis
    by (intro day_of_chars [where ?y1.0 = y1 and ?y2.0 = y2 and ?y3.0 = y3 and ?y4.0 = y4
          and ?m1.0 = m1 and ?m2.0 = m2 and ?d1.0 = d1 and ?d2.0 = d2]) simp_all
qed (use assms in simp_all)

lemma parsed_total_wf:
  assumes "\<forall>t \<in> set xs. wf_date (Transaction.date t)"
  shows "parsed_total k xs (Some (int i)) = day_total k xs i"
proof -
  have "filter (\<lambda>t. type t = k \<and> day_of t = Some (int i)) xs =
        filter (\<lambda>t. type t = k \<and> date_day (Transaction.date t) = i) xs"
    using assms by (intro filter_cong refl) (simp add: day_of_wf)
  then show ?thesis
    by (simp add: parsed_total_def day_total_def)
qed

lemma chartData_shown:
  assumes "\<forall>t \<in> set sub. wf_date (Transaction.date t)"
  shows "chartData sub view flag today = map (day_point sub) (shown_days view flag today)"
proof -
  have "parsed_point sub = day_point sub"
    by (rule ext) (simp add: parsed_point_def day_point_def parsed_total_wf [OF assms])
  then show ?thesis
    by (simp add: chartData_parsed)
qed

lemma distinct_shown: "distinct (shown_days view flag today)"
  by (simp add: shown_days_def Let_def)

lemma chart_field_sum:
  "sum_list (map (day_total k sub) (shown_days view flag today)) =
   total_of k (filter (on_shown_day view flag today) sub)"
proof -
  have "sum_list (map (day_total k sub) (shown_days view flag today)) =
        sum_list (map (\<lambda>i. sum_list (map Transaction.amount
                   (filter (\<lambda>t. type t = k \<and> date_day (Transaction.date t) = i) sub)))
                 (shown_days view flag today))"
    by (simp only: day_total_def [abs_def])
  also have "\<dots> = sum_list (map Transaction.amount
                 (filter (\<lambda>t. type t = k
                            \<and> date_day (Transaction.date t) \<in> set (shown_days view flag today)) sub))"
    by (rule sum_by_key [OF distinct_shown])
  also have "\<dots> = total_of k (filter (on_shown_day view flag today) sub)"
    by (simp only: total_of_def on_shown_day_def filter_filter conj_commute)
  finally show ?thesis .
qed

lemma chart_income_sum:
  assumes "\<forall>t \<in> set sub. wf_date (Transaction.date t)"
  shows "sum_list (map income (chartData sub view flag today)) =
         total_of INCOME (filter (on_shown_day view flag today) sub)"
  by (simp add: chartData_shown [OF assms] day_point_def comp_def chart_field_sum [symmetric])

lemma chart_expense_sum:
  assumes "\<forall>t \<in> set sub. wf_date (Transaction.date t)"
  shows "sum_list (map expense (chartData sub view flag today)) =
         total_of EXPENSE (filter (on_shown_day view flag today) sub)"
  by (simp add: chartData_shown [OF assms] day_point_def comp_def chart_field_sum [symmetric])

text \<open>
  With a flag computed from the same \<open>today\<close>, the chart covers the days up to today in
  the current month, no day of a later month and every day of an earlier month.
\<close>

lemma date_gt_later_month:
  "\<not> isCurrentMonth a b \<Longrightarrow> date_gt a b = later_month a b"
  by (auto simp: isCurrentMonth_def date_gt_def later_month_def)

lemma later_month_not_current: "later_month a b \<Longrightarrow> \<not> isCurrentMonth a b"
  by (auto simp: later_month_def isCurrentMonth_def)

lemma later_month_not_current2: "later_month b a \<Longrightarrow> \<not> isCurrentMonth a b"
  by (auto simp: later_month_def isCurrentMonth_def)

lemma later_month_asym: "later_month b a \<Longrightarrow> \<not> later_month a b"
  by (auto simp: later_month_def)

lemma shown_days_fresh_flag:
  assumes "valid_date today"
  shows "(isCurrentMonth view today \<longrightarrow>
            shown_days view (isCurrentMonth view today) today = [1..<Suc (getDate today)])
       \<and> (later_month view today \<longrightarrow> shown_days view (isCurrentMonth view today) today = [])
       \<and> (later_month today view \<longrightarrow>
            shown_days view (isCurrentMonth view today) today
              = [1..<Suc (lastDayOf (getFullYear view) (getMonth view))])"
proof (intro conjI impI)
  assume cur: "isCurrentMonth view today"
  then have "lastDayOf (getFullYear view) (getMonth view)
             = lastDayOf (getFullYear today) (getMonth today)"
    by (simp add: isCurrentMonth_def)
  with assms have "min (getDate today) (lastDayOf (getFullYear view) (getMonth view))
                   = getDate today"
    by (simp add: valid_date_def)
  with cur show "shown_days view (isCurrentMonth view today) today = [1..<Suc (getDate today)]"
    by (simp add: shown_days_def Let_def del: upt_Suc)
next
  assume l: "later_month view today"
  then show "shown_days view (isCurrentMonth view today) today = []"
    by (simp add: shown_days_def Let_def later_month_not_current
        date_gt_later_month [OF later_month_not_current [OF l]])
next
  assume l: "later_month today view"
  then show "shown_days view (isCurrentMonth view today) today
              = [1..<Suc (lastDayOf (getFullYear view) (getMonth view))]"
    by (simp add: shown_days_def Let_def later_month_not_current2 later_month_asym
        date_gt_later_month [OF later_month_not_current2 [OF l]] del: upt_Suc)
qed

lemma chartData_fresh_flag:
  assumes "valid_date today" "\<forall>t \<in> set sub. wf_date (Transaction.date t)"
  shows "(isCurrentMonth view today \<longrightarrow>
            chartData sub view (isCurrentMonth view today) today
              = map (day_point sub) [1..<Suc (getDate today)])
       \<and> (later_month view today \<longrightarrow> chartData sub view (isCurrentMonth view today) today = [])
       \<and> (later_month today view \<longrightarrow>
            chartData sub view (isCurrentMonth view today) today
              = map (day_point sub) [1..<Suc (lastDayOf (getFullYear view) (getMonth view))])"
  using shown_days_fresh_flag [OF assms(1), of view]
  by (simp add: chartData_shown [OF assms(2)])

section \<open>The earlier and the later implementation\<close>

lemma currentMonthStr_old_eq:
  "isCurrentMonth view today \<Longrightarrow> currentMonthStr view = currentMonthStr_old today"
  by (simp add: isCurrentMonth_def currentMonthStr_def currentMonthStr_old_def)

text \<open>
  With a flag that is true and a viewed date in the month of \<open>today\<close>, the later
  implementation computes what the earlier one computes.
\<close>

lemma cmt_old_eq:
  "isCurrentMonth view today \<Longrightarrow>
   currentMonthTransactions txs view = currentMonthTransactions_old txs today"
  by (simp add: currentMonthTransactions_def currentMonthTransactions_old_def
      currentMonthStr_old_eq)

lemma stats_old_eq:
  "isCurrentMonth view today \<Longrightarrow> stats sub budget view True today = stats_old sub budget today"
  by (simp add: stats_def stats_old_def isCurrentMonth_def)

lemma chartData_old_eq:
  "isCurrentMonth view today \<Longrightarrow> chartData sub view True today = chartData_old sub today"
  by (simp add: chartData_def chartData_old_def isCurrentMonth_def)

lemma categoryStats_old_eq: "categoryStats sub = categoryStats_old sub"
  by (simp add: categoryStats_def categoryStats_old_def)

lemma old_new_fresh_flag:
  assumes "isCurrentMonth view today"
  shows "currentMonthTransactions txs view = currentMonthTransactions_old txs today
       \<and> stats (currentMonthTransactions txs view) budget view (isCurrentMonth view today) today
           = stats_old (currentMonthTransactions_old txs today) budget today
       \<and> chartData (currentMonthTransactions txs view) view (isCurrentMonth view today) today
           = chartData_old (currentMonthTransactions_old txs today) today
       \<and> categoryStats (currentMonthTransactions txs view)
           = categoryStats_old (currentMonthTransactions_old txs today)"
  using assms
  by (simp add: cmt_old_eq [OF assms] stats_old_eq [OF assms] chartData_old_eq [OF assms]
      categoryStats_old_eq)

lemma chartData_old_parsed:
  "chartData_old sub today =
     map (parsed_point sub)
       [1..<Suc (min (getDate today) (lastDayOf (getFullYear today) (getMonth today)))]"
  unfolding chartData_old_def Let_def chart_point_parsed_point_fun filter_le_upt ..

section \<open>Grouping by title\<close>

lemma put_present:
  "distinct ks \<Longrightarrow> k \<in> set ks \<Longrightarrow>
   put (map (\<lambda>k'. (k', f k')) ks) k v = map (\<lambda>k'. (k', (f(k := v)) k')) ks"
  by (induction ks) auto

lemma put_absent:
  "k \<notin> set ks \<Longrightarrow> put (map (\<lambda>k'. (k', f k')) ks) k v = map (\<lambda>k'. (k', f k')) ks @ [(k, v)]"
  by (induction ks) auto

lemma map_of_keys:
  "map_of (map (\<lambda>k'. (k', f k')) ks) k = (if k \<in> set ks then Some (f k) else None)"
  by (induction ks) auto

lemma group_step_present:
  assumes "distinct ks" "title t \<in> set ks" "title t \<notin> set Object_prototype_keys"
  shows "group_step t (map (\<lambda>k. (k, Num (w k))) ks) =
         map (\<lambda>k. (k, Num ((w(title t := w (title t) + Transaction.amount t)) k))) ks"
proof -
  have p: "title t \<noteq> ''__proto__''"
    using assms(3) by (auto simp: Object_prototype_keys_def)
  have "group_step t (map (\<lambda>k. (k, Num (w k))) ks) =
        put (map (\<lambda>k. (k, Num (w k))) ks) (title t) (Num (w (title t) + Transaction.amount t))"
    using assms(2) p by (simp add: group_step_def set_prop_def get_or0_plus_def map_of_keys or0_def)
  also have "\<dots> = map (\<lambda>k. (k, ((\<lambda>k. Num (w k))(title t := Num (w (title t) + Transaction.amount t))) k)) ks"
    by (rule put_present [OF assms(1,2)])
  also have "\<dots> = map (\<lambda>k. (k, Num ((w(title t := w (title t) + Transaction.amount t)) k))) ks"
    by simp
  finally show ?thesis .
qed

lemma group_step_absent:
  assumes "title t \<notin> set ks" "title t \<notin> set Object_prototype_keys"
  shows "group_step t (map (\<lambda>k. (k, Num (w k))) ks) =
         map (\<lambda>k. (k, Num ((w(title t := Transaction.amount t)) k))) (ks @ [title t])"
proof -
  have p: "title t \<noteq> ''__proto__''"
    using assms(2) by (auto simp: Object_prototype_keys_def)
  have "group_step t (map (\<lambda>k. (k, Num (w k))) ks) =
        put (map (\<lambda>k. (k, Num (w k))) ks) (title t) (Num (Transaction.amount t))"
    using assms p by (simp add: group_step_def set_prop_def get_or0_plus_def map_of_keys)
  also have "\<dots> = map (\<lambda>k. (k, Num (w k))) ks @ [(title t, Num (Transaction.amount t))]"
    by (rule put_absent [OF assms(1)])
  also have "\<dots> = map (\<lambda>k. (k, Num ((w(title t := Transaction.amount t)) k))) (ks @ [title t])"
    using assms(1) by auto
  finally show ?thesis .
qed

lemma set_first_seen: "set (first_seen xs) = set xs"
  by (induction xs rule: first_seen.induct) auto

lemma distinct_first_seen: "distinct (first_seen xs)"
  by (induction xs rule: first_seen.induct) (auto simp: set_first_seen)

lemma fold_group_step:
  assumes "\<forall>t \<in> set ts. title t \<notin> set Object_prototype_keys"
      and "distinct ks" and "\<forall>k. k \<notin> set ks \<longrightarrow> w k = 0"
  shows "fold group_step ts (map (\<lambda>k. (k, Num (w k))) ks) =
         map (\<lambda>k. (k, Num (w k + title_sum ts k)))
             (ks @ first_seen (filter (\<lambda>k. k \<notin> set ks) (map title ts)))"
  using assms
proof (induction ts arbitrary: ks w)
  case Nil
  show ?case by (simp add: title_sum_def)
next
  case (Cons t ts)
  have np: "title t \<notin> set Object_prototype_keys" and rest: "\<forall>t \<in> set ts. title t \<notin> set Object_prototype_keys"
    using Cons.prems(1) by simp_all
  show ?case
  proof (cases "title t \<in> set ks")
    case True
    let ?w = "w(title t := w (title t) + Transaction.amount t)"
    have z: "\<forall>k. k \<notin> set ks \<longrightarrow> ?w k = 0"
      using True Cons.prems(3) by auto
    have "fold group_step (t # ts) (map (\<lambda>k. (k, Num (w k))) ks) =
          fold group_step ts (map (\<lambda>k. (k, Num (?w k))) ks)"
      by (simp add: group_step_present [OF Cons.prems(2) True np])
    also have "\<dots> = map (\<lambda>k. (k, Num (?w k + title_sum ts k)))
             (ks @ first_seen (filter (\<lambda>k. k \<notin> set ks) (map title ts)))"
      by (rule Cons.IH [OF rest Cons.prems(2) z])
    also have "\<dots> = map (\<lambda>k. (k, Num (w k + title_sum (t # ts) k)))
             (ks @ first_seen (filter (\<lambda>k. k \<notin> set ks) (map title (t # ts))))"
      using True by (simp add: title_sum_def)
    finally show ?thesis .
  next
    case False
    let ?w = "w(title t := Transaction.amount t)"
    have d: "distinct (ks @ [title t])"
      using False Cons.prems(2) by simp
    have z: "\<forall>k. k \<notin> set (ks @ [title t]) \<longrightarrow> ?w k = 0"
      using Cons.prems(3) by auto
    have w0: "w (title t) = 0"
      using False Cons.prems(3) by simp
    have f: "filter (\<lambda>k. k \<notin> set (ks @ [title t])) (map title ts) =
             filter (\<lambda>y. y \<noteq> title t) (filter (\<lambda>k. k \<notin> set ks) (map title ts))"
      by (auto intro: filter_cong)
    have "fold group_step (t # ts) (map (\<lambda>k. (k, Num (w k))) ks) =
          fold group_step ts (map (\<lambda>k. (k, Num (?w k))) (ks @ [title t]))"
      by (simp only: fold_simps group_step_absent [OF False np])
    also have "\<dots> = map (\<lambda>k. (k, Num (?w k + title_sum ts k)))
             ((ks @ [title t]) @ first_seen (filter (\<lambda>k. k \<notin> set (ks @ [title t])) (map title ts)))"
      by (rule Cons.IH [OF rest d z])
    also have "\<dots> = map (\<lambda>k. (k, Num (w k + title_sum (t # ts) k)))
             (ks @ first_seen (filter (\<lambda>k. k \<notin> set ks) (map title (t # ts))))"
    proof -
      have v: "?w k + title_sum ts k = w k + title_sum (t # ts) k" for k
        using w0 by (simp add: title_sum_def)
      have l: "(ks @ [title t]) @ first_seen (filter (\<lambda>k. k \<notin> set (ks @ [title t])) (map title ts))
               = ks @ first_seen (filter (\<lambda>k. k \<notin> set ks) (map title (t # ts)))"
        using False by (simp add: f conj_commute)
      show ?thesis
        by (simp only: v l)
    qed
    finally show ?thesis .
  qed
qed

lemma fold_group_step_empty:
  assumes "\<forall>t \<in> set ts. title t \<notin> set Object_prototype_keys"
  shows "fold group_step ts [] = map (\<lambda>k. (k, Num (title_sum ts k))) (first_seen (map title ts))"
  using fold_group_step [OF assms, of "[]" "\<lambda>_. 0"] by simp

lemma set_key_order: "set (key_order ks) = set ks"
  by (auto simp: key_order_def)

lemma Object_entries_keys:
  "Object_entries (map (\<lambda>k. (k, f k)) ks) = map (\<lambda>k. (k, f k)) (key_order ks)"
proof -
  have "concat (map (\<lambda>k. case (if k \<in> set ks then Some (f k) else None) of None \<Rightarrow> [] | Some v \<Rightarrow> [(k, v)]) js)
        = map (\<lambda>k. (k, f k)) js" if "set js \<subseteq> set ks" for js
    using that by (induction js) auto
  then show ?thesis
    by (simp add: Object_entries_def map_of_keys comp_def set_key_order)
qed

section \<open>The stable sort\<close>

lemma mset_insert_cmp: "mset (insert_cmp cmp x ys) = add_mset x (mset ys)"
  by (induction ys) simp_all

lemma mset_sort_cmp: "mset (sort_cmp cmp xs) = mset xs"
  unfolding sort_cmp_def by (induction xs) (simp_all add: mset_insert_cmp)

lemma set_insert_cmp: "set (insert_cmp cmp x ys) = insert x (set ys)"
  by (induction ys) auto

lemma set_sort_cmp: "set (sort_cmp cmp xs) = set xs"
  unfolding sort_cmp_def by (induction xs) (simp_all add: set_insert_cmp)





section \<open>The slices of the category breakdown\<close>


lemma title_sum_expenses:
  "title_sum (filter (\<lambda>t. type t = EXPENSE) sub) k = group_amount sub k"
  by (simp add: title_sum_def group_amount_def conj_commute)

lemma categoryStats_slices:
  assumes "total_of EXPENSE sub \<noteq> 0"
      and "\<forall>t \<in> set sub. type t = EXPENSE \<longrightarrow> title t \<notin> set Object_prototype_keys"
  shows "categoryStats sub =
         Inr (sort_cmp compare_amount
               (map (slice sub)
                  (key_order (first_seen (map title (filter (\<lambda>t. type t = EXPENSE) sub))))))"
proof -
  let ?ex = "filter (\<lambda>t. type t = EXPENSE) sub"
  have np: "\<forall>t \<in> set ?ex. title t \<notin> set Object_prototype_keys"
    using assms(2) by simp
  have "Object_entries (fold group_step ?ex []) =
        map (\<lambda>k. (k, Num (group_amount sub k))) (key_order (first_seen (map title ?ex)))"
    by (simp only: fold_group_step_empty [OF np] Object_entries_keys title_sum_expenses)
  moreover have "(\<lambda>k. \<lparr>name = k, amount = Num (group_amount sub k),
                    percentage = percent (total_of EXPENSE sub) (Num (group_amount sub k))\<rparr>)
                 = slice sub"
    by (rule ext) (simp add: slice_def percent_def)
  ultimately show ?thesis
    using assms(1)
    by (simp add: categoryStats_Inr comp_def)
qed

lemma mset_key_order: "mset (key_order ks) = mset ks"
  by (simp add: key_order_def)

lemma sum_list_mset_cong:
  "mset xs = mset ys \<Longrightarrow> sum_list (map f xs) = (sum_list (map f ys) :: real)"
  by (metis mset_map sum_mset_sum_list)

lemma sum_percentages_slices:
  "sum_percentages cs = Some (sum_list (map (\<lambda>c. 100 * slice_amount c / tot) cs))"
  if "\<forall>c \<in> set cs. percentage c = Some (100 * slice_amount c / tot)"
  using that by (induction cs) simp_all

lemma sum_list_scaled:
  "sum_list (map (\<lambda>k. 100 * f k / t) ks) = 100 * sum_list (map f ks) / (t :: real)"
  by (induction ks) (simp_all add: algebra_simps add_divide_distrib)

lemma group_amount_sum:
  "sum_list (map (group_amount sub) (first_seen (map title (filter (\<lambda>t. type t = EXPENSE) sub))))
   = total_of EXPENSE sub"
proof -
  let ?ks = "first_seen (map title (filter (\<lambda>t. type t = EXPENSE) sub))"
  have "sum_list (map (group_amount sub) ?ks) =
        sum_list (map Transaction.amount (filter (\<lambda>t. type t = EXPENSE \<and> title t \<in> set ?ks) sub))"
    unfolding group_amount_def by (rule sum_by_key [OF distinct_first_seen])
  also have "filter (\<lambda>t. type t = EXPENSE \<and> title t \<in> set ?ks) sub = filter (\<lambda>t. type t = EXPENSE) sub"
    by (rule filter_cong) (auto simp: set_first_seen)
  finally show ?thesis
    by (simp add: total_of_def)
qed

lemma categoryStats_percentages:
  assumes "total_of EXPENSE sub \<noteq> 0"
      and "\<forall>t \<in> set sub. type t = EXPENSE \<longrightarrow> title t \<notin> set Object_prototype_keys"
  shows "\<exists>cs. categoryStats sub = Inr cs \<and> sum_percentages cs = Some 100"
proof -
  let ?T = "total_of EXPENSE sub"
  let ?cs = "sort_cmp compare_amount (groups sub)"
  have c: "categoryStats sub = Inr ?cs"
    using assms by (simp add: categoryStats_slices groups_def)
  have "\<forall>c \<in> set ?cs. percentage c = Some (100 * slice_amount c / ?T)"
    by (auto simp: set_sort_cmp groups_def slice_def slice_amount_def)
  then have "sum_percentages ?cs = Some (sum_list (map (\<lambda>c. 100 * slice_amount c / ?T) ?cs))"
    by (rule sum_percentages_slices)
  also have "sum_list (map (\<lambda>c. 100 * slice_amount c / ?T) ?cs)
           = sum_list (map (\<lambda>c. 100 * slice_amount c / ?T) (groups sub))"
    by (rule sum_list_mset_cong) (rule mset_sort_cmp)
  also have "\<dots> = sum_list (map (\<lambda>k. 100 * group_amount sub k / ?T)
                       (key_order (first_seen (map title (filter (\<lambda>t. type t = EXPENSE) sub)))))"
    by (simp add: groups_def comp_def slice_def slice_amount_def)
  also have "\<dots> = sum_list (map (\<lambda>k. 100 * group_amount sub k / ?T)
                       (first_seen (map title (filter (\<lambda>t. type t = EXPENSE) sub))))"
    by (rule sum_list_mset_cong) (rule mset_key_order)
  also have "\<dots> = 100 * sum_list (map (group_amount sub)
                       (first_seen (map title (filter (\<lambda>t. type t = EXPENSE) sub)))) / ?T"
    by (rule sum_list_scaled)
  also have "\<dots> = 100"
    using assms(1) by (simp add: group_amount_sum)
  finally show ?thesis
    using c by simp
qed

section \<open>The handlers\<close>

lemma parseFloat_empty: "parseFloat [] = None"
  by (simp add: parseFloat_def)

lemma handleAddTransaction_unchanged:
  assumes "newTransTitle st = [] \<or> parseFloat (newTransAmount st) = None
           \<or> (\<exists>a. parseFloat (newTransAmount st) = Some a \<and> a \<le> 0)"
  shows "handleAddTransaction clock flag uuid st = st"
  using assms by (auto simp: handleAddTransaction_def)

lemma handleAddTransaction_prepends:
  assumes "newTransTitle st \<noteq> []" "parseFloat (newTransAmount st) = Some a" "0 < a"
  shows "transactions (handleAddTransaction clock flag uuid st) =
           \<lparr>id_t = uuid, title = newTransTitle st, amount = a, type = newTransType st,
            date = hd (js_split (CHR ''T'') (toISOString clock)), timestamp = nowMs clock\<rparr>
           # transactions st"
proof -
  have "newTransAmount st \<noteq> []"
    using assms(2) by (auto simp: parseFloat_empty)
  with assms show ?thesis
    by (simp add: handleAddTransaction_def Let_def)
qed

lemma handleAddTransaction_old_unchanged:
  assumes "newTransTitle st = [] \<or> parseFloat (newTransAmount st) = None
           \<or> (\<exists>a. parseFloat (newTransAmount st) = Some a \<and> a \<le> 0)"
  shows "handleAddTransaction_old clock uuid st = st"
  using assms by (auto simp: handleAddTransaction_old_def)

lemma handleAddTransaction_old_prepends:
  assumes "newTransTitle st \<noteq> []" "parseFloat (newTransAmount st) = Some a" "0 < a"
  shows "transactions (handleAddTransaction_old clock uuid st) =
           \<lparr>id_t = uuid, title = newTransTitle st, amount = a, type = newTransType st,
            date = hd (js_split (CHR ''T'') (toISOString clock)), timestamp = nowMs clock\<rparr>
           # transactions st"
proof -
  have "newTransAmount st \<noteq> []"
    using assms(2) by (auto simp: parseFloat_empty)
  with assms show ?thesis
    by (simp add: handleAddTransaction_old_def Let_def)
qed

lemma saveBudget_budget:
  "monthlyBudget (saveBudget st) =
     (case parseFloat (tempBudgetInput st) of
        None \<Rightarrow> monthlyBudget st
      | Some v \<Rightarrow> if 0 < v then v else monthlyBudget st)"
  by (simp add: saveBudget_def split: option.splits)

lemma saveBudget_old_budget:
  "monthlyBudget (saveBudget_old st) =
     (case parseFloat (tempBudgetInput st) of
        None \<Rightarrow> monthlyBudget st
      | Some v \<Rightarrow> if 0 < v then v else monthlyBudget st)"
  by (simp add: saveBudget_old_def split: option.splits)

lemma update_budget_positive:
  "0 < monthlyBudget st \<Longrightarrow> 0 < monthlyBudget (update_budget input st)"
  by (simp add: update_budget_def saveBudget_budget split: option.splits)

lemma update_budget_old_positive:
  "0 < monthlyBudget st \<Longrightarrow> 0 < monthlyBudget (update_budget_old input st)"
  by (simp add: update_budget_old_def saveBudget_old_budget split: option.splits)

lemma fold_update_budget_positive:
  "0 < monthlyBudget st \<Longrightarrow> 0 < monthlyBudget (fold update_budget inputs st)"
  by (induction inputs arbitrary: st) (simp_all add: update_budget_positive)

lemma fold_update_budget_old_positive:
  "0 < monthlyBudget st \<Longrightarrow> 0 < monthlyBudget (fold update_budget_old inputs st)"
  by (induction inputs arbitrary: st) (simp_all add: update_budget_old_positive)

section \<open>Evaluation of the example data\<close>

lemma entry_sel:
  "type (entry a k ttl d) = k"
  "Transaction.amount (entry a k ttl d) = a"
  "title (entry a k ttl d) = ttl"
  "Transaction.date (entry a k ttl d) = d"
  by (simp_all add: entry_def)

lemma wf_examples:
  "wf_date ''2024-06-01''" "wf_date ''2024-06-02''" "wf_date ''2024-06-05''"
  "wf_date ''2024-06-12''" "wf_date ''2024-06-25''" "wf_date ''2024-01-20''"
  "wf_date ''2024-02-01''"
  by code_simp+

lemma date_day_examples:
  "date_day ''2024-06-01'' = 1" "date_day ''2024-06-02'' = 2" "date_day ''2024-06-05'' = 5"
  "date_day ''2024-06-12'' = 12" "date_day ''2024-06-25'' = 25" "date_day ''2024-01-20'' = 20"
  "date_day ''2024-02-01'' = 1"
  by code_simp+

lemma current_examples:
  "isCurrentMonth june2 june2" "isCurrentMonth june20 june20" "\<not> isCurrentMonth may20 june2"
  "isCurrentMonth jan31 jan31" "\<not> isCurrentMonth jan31 feb15"
  "\<not> isCurrentMonth feb10 jan20" "isCurrentMonth feb10 feb15"
  by (simp_all add: isCurrentMonth_def june2_def june20_def may20_def jan31_def jan20_def
      feb10_def feb15_def)

lemma june_str: "currentMonthStr june2 = ''2024-06''" "currentMonthStr june20 = ''2024-06''"
  by code_simp+

lemma feb_str: "currentMonthStr feb10 = ''2024-02''" "currentMonthStr_old feb15 = ''2024-02''"
  by code_simp+

lemma cmt_scenario: "currentMonthTransactions scenario june2 = scenario"
  by (simp add: currentMonthTransactions_def june_str scenario_def entry_sel startsWith_def)

lemma cmt_late: "currentMonthTransactions late_income june2 = late_income"
  by (simp add: currentMonthTransactions_def june_str late_income_def entry_sel startsWith_def)

lemma cmt_spread: "currentMonthTransactions spread june20 = spread"
  by (simp add: currentMonthTransactions_def june_str spread_def entry_sel startsWith_def)

lemma cmt_february:
  "currentMonthTransactions february feb10 = february"
  "currentMonthTransactions_old february feb15 = february"
  by (simp_all add: currentMonthTransactions_def currentMonthTransactions_old_def feb_str
      february_def entry_sel startsWith_def)

lemma last_day_examples:
  "lastDayOf (getFullYear june2) (getMonth june2) = 30"
  "lastDayOf (getFullYear june20) (getMonth june20) = 30"
  "lastDayOf (getFullYear may20) (getMonth may20) = 31"
  "lastDayOf (getFullYear jan31) (getMonth jan31) = 31"
  "lastDayOf (getFullYear feb10) (getMonth feb10) = 29"
  "lastDayOf (getFullYear feb15) (getMonth feb15) = 29"
  by (simp_all add: lastDayOf_def leap_year_def june2_def june20_def may20_def jan31_def
      feb10_def feb15_def)

lemma day_examples:
  "getDate june2 = 2" "getDate june20 = 20" "getDate feb15 = 15"
  by (simp_all add: june2_def june20_def feb15_def)

lemma shown_june2: "shown_days june2 True june2 = [1, 2]"
  by (simp add: shown_days_def Let_def last_day_examples day_examples upt_rec)

lemma shown_june20: "shown_days june20 True june20 = [1..<Suc 20]"
  by (simp add: shown_days_def Let_def last_day_examples day_examples del: upt_Suc)

lemma shown_jan31: "shown_days jan31 True feb15 = [1..<Suc 15]"
  by (simp add: shown_days_def Let_def last_day_examples day_examples del: upt_Suc)

lemma shown_feb10: "shown_days feb10 False feb15 = [1..<Suc 29]"
proof -
  have "\<not> date_gt feb10 feb15"
    by (simp add: date_gt_def feb10_def feb15_def)
  then show ?thesis
    by (simp add: shown_days_def Let_def last_day_examples del: upt_Suc)
qed

lemma wf_lists:
  "\<forall>t \<in> set scenario. wf_date (Transaction.date t)"
  "\<forall>t \<in> set late_income. wf_date (Transaction.date t)"
  "\<forall>t \<in> set spread. wf_date (Transaction.date t)"
  "\<forall>t \<in> set january. wf_date (Transaction.date t)"
  "\<forall>t \<in> set february. wf_date (Transaction.date t)"
  by (simp_all add: scenario_def late_income_def spread_def january_def february_def
      entry_sel is_dec_def)

lemma whole_lists:
  "whole_amounts scenario" "whole_amounts spread" "whole_amounts ties"
  by (simp_all add: whole_amounts_def scenario_def spread_def ties_def entry_sel)



lemma parseFloat_30: "parseFloat ''30'' = Some 30"
  by code_simp

lemma iso_date: "hd (js_split (CHR ''T'') ''2024-02-29T23:00:00.000Z'') = ''2024-02-29''"
  by code_simp

lemma march_str: "currentMonthStr march1 = ''2024-03''"
  by (simp add: currentMonthStr_def string_of_int_def padStart_def march1_def)

lemma parseFloat_examples:
  "parseFloat ''3000'' = Some 3000"
  "parseFloat ''-5'' = Some (- 5)"
  "parseFloat ''abc'' = None"
  "parseFloat [] = None"
  "parseFloat ''0'' = Some 0"
  "parseFloat ''12.5'' = Some 12.5"
  by code_simp+

section \<open>Claims about the derived statistics\<close>

text \<open>
  Claim C3 fails on the code when the clock has passed into another month since the
  viewed date last changed. The flag \<open>isCurrentMonth\<close> is a memo on the viewed date
  alone and keeps the value it had then, while \<open>stats\<close> reads the clock anew. On a page
  opened on 31 January 2024 and still open on 15 February, January is viewed and is not
  the current month: with an expense of 100 and a budget of 1000 the statistics give 17
  days remaining and a daily allowance of 900/17, where the claim says 0 and 0. On a
  page where February was selected on 20 January and which is still open on
  15 February, February is the current month: the statistics give 0 and 0, where the
  claim says 15 days and a daily allowance of 60. The totals and the remaining budget
  are as the claim says, and so is all of it when the flag is computed at the time of
  \<open>today\<close> (lemma \<open>stats_fresh_flag\<close>).
\<close>

theorem stats_stale_flag:
  "isCurrentMonth jan31 jan31 \<and> \<not> isCurrentMonth jan31 feb15
   \<and> stats january 1000 jan31 (isCurrentMonth jan31 jan31) feb15 =
       Inr \<lparr>daysRemaining = 17, dailyAvailable = 900 / 17, totalSpentThisMonth = 100,
            totalIncomeThisMonth = 0, remainingBudget = 900\<rparr>
   \<and> \<not> isCurrentMonth feb10 jan20 \<and> isCurrentMonth feb10 feb15
   \<and> lastDayOf (getFullYear feb10) (getMonth feb10) = 29 \<and> getDate feb15 = 15
   \<and> stats february 1000 feb10 (isCurrentMonth feb10 jan20) feb15 =
       Inr \<lparr>daysRemaining = 0, dailyAvailable = 0, totalSpentThisMonth = 100,
            totalIncomeThisMonth = 0, remainingBudget = 900\<rparr>"
proof -
  have t: "total_of EXPENSE january = 100" "total_of INCOME january = 0"
    "total_of EXPENSE february = 100" "total_of INCOME february = 0"
    by (simp_all add: total_of_def january_def february_def entry_sel)
  have d: "getDate feb15 = 15"
    by (simp add: feb15_def)
  show ?thesis
    by (simp add: stats_eval current_examples last_day_examples d t)
qed

text \<open>
  Claim C7. For every subset of transactions, budget, viewed date, value of the flag
  and today, the statistics and the category breakdown return a result and never divide
  by zero: where the flag is true the divisor \<open>daysRemaining\<close> is at least 1, and with
  a total expense of zero the category breakdown returns the empty list before any
  percentage is computed.
\<close>

theorem aggregation_never_divides_by_zero:
  "(\<exists>s. stats sub budget view flag today = Inr s \<and> (flag \<longrightarrow> 1 \<le> daysRemaining s))
   \<and> (\<exists>cs. categoryStats sub = Inr cs \<and> (total_of EXPENSE sub = 0 \<longrightarrow> cs = []))"
  by (simp add: categoryStats_Inr stats_eval)

theorem aggregation_never_divides_by_zero_witness:
  "isCurrentMonth june2 june2 \<and> total_of EXPENSE late_income = 0
   \<and> (\<exists>s. stats late_income 1000 june2 (isCurrentMonth june2 june2) june2 = Inr s
          \<and> 1 \<le> daysRemaining s)
   \<and> categoryStats late_income = Inr []"
proof -
  have m: "isCurrentMonth june2 june2"
    by (simp add: isCurrentMonth_def)
  have t: "total_of EXPENSE late_income = 0"
    by (simp add: total_of_def late_income_def entry_sel)
  show ?thesis
    using aggregation_never_divides_by_zero [of late_income 1000 june2 "isCurrentMonth june2 june2" june2]
      m t
    by auto
qed

section \<open>Claims about the chart series\<close>

text \<open>
  Claim C4 fails on the code when the clock has passed into another month since the
  viewed date last changed: the chart reads the memoised flag \<open>isCurrentMonth\<close> and the
  clock anew, as the statistics do (the defect of claim C3). On a page opened on
  31 January 2024 and still open on 15 February, January is an earlier month: the chart
  emits the days 1 to 15 and not the 31 days of January, and the expense dated
  20 January is in no point. On a page where February was selected on 20 January and
  which is still open on 15 February, February is the current month: the chart emits
  the 29 days of February and not the days 1 to 15. The points carry the sums of their
  days, and the days are those of the claim when the flag is computed at the time of
  \<open>today\<close> (lemma \<open>chartData_fresh_flag\<close>).
\<close>

theorem chartData_stale_flag:
  "isCurrentMonth jan31 jan31 \<and> later_month feb15 jan31
   \<and> lastDayOf (getFullYear jan31) (getMonth jan31) = 31
   \<and> chartData january jan31 (isCurrentMonth jan31 jan31) feb15 = map zero_point [1..<Suc 15]
   \<and> total_of EXPENSE january = 100
   \<and> \<not> isCurrentMonth feb10 jan20 \<and> isCurrentMonth feb10 feb15 \<and> getDate feb15 = 15
   \<and> length (chartData february feb10 (isCurrentMonth feb10 jan20) feb15) = 29"
proof -
  have l: "later_month feb15 jan31"
    by (simp add: later_month_def feb15_def jan31_def)
  have "map (day_point january) [1..<Suc 15] = map zero_point [1..<Suc 15]"
    by (rule map_cong [OF refl])
      (simp add: day_point_def zero_point_def day_total_def january_def entry_sel
        dec_value_def)
  then have c: "chartData january jan31 True feb15 = map zero_point [1..<Suc 15]"
    by (simp only: chartData_shown [OF wf_lists(4)] shown_jan31)
  have n: "length (chartData february feb10 False feb15) = 29"
    by (simp add: chartData_parsed shown_feb10 del: upt_Suc)
  have t: "total_of EXPENSE january = 100"
    by (simp add: total_of_def january_def entry_sel)
  show ?thesis
    by (simp add: current_examples last_day_examples day_examples l c n t del: upt_Suc)
qed

text \<open>
  Claim C1, as amended. Take a transaction list whose transactions of the viewed month
  are dated in the form \<open>YYYY-MM-DD\<close> and have whole amounts, and any viewed date,
  value of the flag, budget and today. The incomes of the chart points add up to the
  income of the month's transactions dated on an emitted day, and the expenses
  likewise; when every transaction of the month is dated on an emitted day, these sums
  are \<open>totalIncomeThisMonth\<close> and \<open>totalSpentThisMonth\<close> of the derived statistics. The
  day of a transaction is read off its date, not taken from the code. The amounts are
  whole because the chart adds them day by day and the statistics in the order of the
  list, and two such sums of doubles are the same number only when no addition rounds.
\<close>

theorem chart_sums_shown_days:
  assumes "\<forall>t \<in> set (currentMonthTransactions txs view). wf_date (Transaction.date t)"
    and "whole_amounts (currentMonthTransactions txs view)"
  shows
    "sum_list (map income (chartData (currentMonthTransactions txs view) view flag today)) =
       total_of INCOME
         (filter (on_shown_day view flag today) (currentMonthTransactions txs view))
     \<and> sum_list (map expense (chartData (currentMonthTransactions txs view) view flag today)) =
       total_of EXPENSE
         (filter (on_shown_day view flag today) (currentMonthTransactions txs view))
     \<and> ((\<forall>t \<in> set (currentMonthTransactions txs view). on_shown_day view flag today t) \<longrightarrow>
          (\<exists>s. stats (currentMonthTransactions txs view) budget view flag today = Inr s
             \<and> sum_list (map income
                   (chartData (currentMonthTransactions txs view) view flag today))
                 = totalIncomeThisMonth s
             \<and> sum_list (map expense
                   (chartData (currentMonthTransactions txs view) view flag today))
                 = totalSpentThisMonth s))"
proof (intro conjI impI)
  assume "\<forall>t \<in> set (currentMonthTransactions txs view). on_shown_day view flag today t"
  then have "filter (on_shown_day view flag today) (currentMonthTransactions txs view)
             = currentMonthTransactions txs view"
    by simp
  then show "\<exists>s. stats (currentMonthTransactions txs view) budget view flag today = Inr s
             \<and> sum_list (map income
                   (chartData (currentMonthTransactions txs view) view flag today))
                 = totalIncomeThisMonth s
             \<and> sum_list (map expense
                   (chartData (currentMonthTransactions txs view) view flag today))
                 = totalSpentThisMonth s"
    by (simp add: stats_eval chart_income_sum [OF assms(1)] chart_expense_sum [OF assms(1)])
qed (rule chart_income_sum [OF assms(1)] chart_expense_sum [OF assms(1)])+

text \<open>
  The scenario of the specification on day 2 of June 2024, where every transaction is
  on an emitted day; and three transactions viewed on day 20, of which the income of 70
  dated on day 25 is in no chart point.
\<close>

theorem chart_sums_shown_days_witness:
  "list_all (\<lambda>t. wf_date (Transaction.date t)) (currentMonthTransactions scenario june2)
   \<and> whole_amounts (currentMonthTransactions scenario june2)
   \<and> list_all (on_shown_day june2 True june2) (currentMonthTransactions scenario june2)
   \<and> sum_list (map income (chartData (currentMonthTransactions scenario june2) june2 True june2))
       = 50
   \<and> sum_list (map expense (chartData (currentMonthTransactions scenario june2) june2 True june2))
       = 100
   \<and> stats (currentMonthTransactions scenario june2) 1000 june2 True june2 =
       Inr \<lparr>daysRemaining = 29, dailyAvailable = 900 / 29, totalSpentThisMonth = 100,
            totalIncomeThisMonth = 50, remainingBudget = 900\<rparr>
   \<and> list_all (\<lambda>t. wf_date (Transaction.date t)) (currentMonthTransactions spread june20)
   \<and> whole_amounts (currentMonthTransactions spread june20)
   \<and> sum_list (map income (chartData (currentMonthTransactions spread june20) june20 True june20))
       = 50
   \<and> sum_list (map expense (chartData (currentMonthTransactions spread june20) june20 True june20))
       = 100
   \<and> total_of INCOME (currentMonthTransactions spread june20) = 120"
proof -
  have w: "\<forall>t \<in> set (currentMonthTransactions scenario june2). wf_date (Transaction.date t)"
    "whole_amounts (currentMonthTransactions scenario june2)"
    "\<forall>t \<in> set (currentMonthTransactions spread june20). wf_date (Transaction.date t)"
    "whole_amounts (currentMonthTransactions spread june20)"
    unfolding cmt_scenario cmt_spread
    by (rule wf_lists(1) whole_lists(1) wf_lists(3) whole_lists(2))+
  have shown: "\<forall>t \<in> set (currentMonthTransactions scenario june2). on_shown_day june2 True june2 t"
    unfolding cmt_scenario
    by (simp add: on_shown_day_def shown_june2 scenario_def entry_sel dec_value_def)
  have st: "stats (currentMonthTransactions scenario june2) 1000 june2 True june2 =
       Inr \<lparr>daysRemaining = 29, dailyAvailable = 900 / 29, totalSpentThisMonth = 100,
            totalIncomeThisMonth = 50, remainingBudget = 900\<rparr>"
    unfolding cmt_scenario
    by (simp add: stats_eval total_of_def scenario_def entry_sel last_day_examples day_examples)
  have f: "filter (on_shown_day june20 True june20) (currentMonthTransactions spread june20) =
           [entry 100 EXPENSE ''Rent'' ''2024-06-01'', entry 50 INCOME ''Gift'' ''2024-06-12'']"
    unfolding cmt_spread
    by (simp add: on_shown_day_def shown_june20 spread_def entry_sel dec_value_def
        del: upt_Suc)
  have t: "total_of INCOME (currentMonthTransactions spread june20) = 120"
    unfolding cmt_spread by (simp add: total_of_def spread_def entry_sel)
  have a: "sum_list (map income (chartData (currentMonthTransactions scenario june2) june2 True june2)) = 50"
    "sum_list (map expense (chartData (currentMonthTransactions scenario june2) june2 True june2)) = 100"
    using chart_sums_shown_days [OF w(1,2), of True june2 1000] shown st by simp_all
  have b: "sum_list (map income (chartData (currentMonthTransactions spread june20) june20 True june20)) = 50"
    "sum_list (map expense (chartData (currentMonthTransactions spread june20) june20 True june20)) = 100"
    using chart_sums_shown_days [OF w(3,4), of True june20 1000]
    by (simp_all add: f total_of_def entry_sel)
  from w shown st t a b show ?thesis
    by (simp add: list_all_iff)
qed

text \<open>
  Claim C1 as it is stated fails: an income dated on day 5, viewed on day 2 of its
  month, counts in \<open>totalIncomeThisMonth\<close> and in no chart point.
\<close>

theorem chart_sums_counterexample:
  "stats (currentMonthTransactions late_income june2) 1000 june2 (isCurrentMonth june2 june2) june2 =
     Inr \<lparr>daysRemaining = 29, dailyAvailable = 1000 / 29, totalSpentThisMonth = 0,
          totalIncomeThisMonth = 50, remainingBudget = 1000\<rparr>
   \<and> sum_list (map income
       (chartData (currentMonthTransactions late_income june2) june2 (isCurrentMonth june2 june2) june2))
     = 0"
proof -
  have "sum_list (map income (chartData late_income june2 True june2)) =
        total_of INCOME (filter (on_shown_day june2 True june2) late_income)"
    by (rule chart_income_sum [OF wf_lists(2)])
  also have "\<dots> = 0"
    by (simp add: on_shown_day_def shown_june2 total_of_def late_income_def entry_sel
        dec_value_def)
  finally have "sum_list (map income (chartData late_income june2 True june2)) = 0" .
  moreover have "stats late_income 1000 june2 True june2 =
     Inr \<lparr>daysRemaining = 29, dailyAvailable = 1000 / 29, totalSpentThisMonth = 0,
          totalIncomeThisMonth = 50, remainingBudget = 1000\<rparr>"
    by (simp add: stats_eval total_of_def late_income_def entry_sel last_day_examples
        day_examples)
  ultimately show ?thesis
    by (simp add: cmt_late current_examples)
qed

text \<open>
  Claim C2, as amended. For an empty transaction list and any budget, the total expense
  and the total income are zero, the remaining budget is the budget, and the category
  list is empty; \<open>daysRemaining\<close> and \<open>dailyAvailable\<close> are zero where the flag
  \<open>isCurrentMonth\<close> is false, and \<open>max 1 (lastDayOfMonth - today.day + 1)\<close> and
  \<open>max 0 (budget / daysRemaining)\<close> where it is true; the chart emits the same days as
  for any other list, each with zero income and zero expense.
\<close>

theorem empty_list_aggregation:
  "currentMonthTransactions [] view = []
   \<and> (\<exists>s. stats [] budget view flag today = Inr s
        \<and> totalSpentThisMonth s = 0 \<and> totalIncomeThisMonth s = 0 \<and> remainingBudget s = budget
        \<and> (flag \<longrightarrow>
             daysRemaining s =
               max 1 (int (lastDayOf (getFullYear view) (getMonth view)) - int (getDate today) + 1)
             \<and> dailyAvailable s = max 0 (budget / of_int (daysRemaining s)))
        \<and> (\<not> flag \<longrightarrow> daysRemaining s = 0 \<and> dailyAvailable s = 0))
   \<and> categoryStats [] = Inr []
   \<and> chartData [] view flag today = map zero_point (shown_days view flag today)"
proof -
  have "parsed_point [] = zero_point"
    by (rule ext) (simp add: parsed_point_def zero_point_def parsed_total_def)
  then show ?thesis
    by (simp add: currentMonthTransactions_def stats_eval total_of_def categoryStats_Inr
        chartData_parsed)
qed

theorem empty_list_aggregation_witness:
  "isCurrentMonth june2 june2 \<and> \<not> isCurrentMonth may20 june2
   \<and> stats [] 1000 june2 (isCurrentMonth june2 june2) june2 =
       Inr \<lparr>daysRemaining = 29, dailyAvailable = 1000 / 29, totalSpentThisMonth = 0,
            totalIncomeThisMonth = 0, remainingBudget = 1000\<rparr>
   \<and> stats [] 1000 may20 (isCurrentMonth may20 june2) june2 =
       Inr \<lparr>daysRemaining = 0, dailyAvailable = 0, totalSpentThisMonth = 0,
            totalIncomeThisMonth = 0, remainingBudget = 1000\<rparr>
   \<and> chartData [] june2 (isCurrentMonth june2 june2) june2 = [zero_point 1, zero_point 2]
   \<and> categoryStats [] = Inr []"
proof -
  have m: "isCurrentMonth june2 june2 = True" "isCurrentMonth may20 june2 = False"
    by (simp_all add: current_examples)
  obtain s where s: "stats [] 1000 june2 True june2 = Inr s"
    "totalSpentThisMonth s = 0" "totalIncomeThisMonth s = 0" "remainingBudget s = 1000"
    "daysRemaining s = 29" "dailyAvailable s = max 0 (1000 / of_int (daysRemaining s))"
    using empty_list_aggregation [of june2 1000 True june2]
    by (auto simp: last_day_examples day_examples)
  obtain s' where s': "stats [] 1000 may20 False june2 = Inr s'"
    "totalSpentThisMonth s' = 0" "totalIncomeThisMonth s' = 0" "remainingBudget s' = 1000"
    "daysRemaining s' = 0" "dailyAvailable s' = 0"
    using empty_list_aggregation [of may20 1000 False june2] by auto
  have c: "chartData [] june2 True june2 = [zero_point 1, zero_point 2]"
    using empty_list_aggregation [of june2 1000 True june2] by (simp add: shown_june2)
  have g: "categoryStats [] = Inr []"
    using empty_list_aggregation [of june2 1000 True june2] by simp
  from s s' c g show ?thesis
    by (simp add: m)
qed

text \<open>
  Claim C2 as it is stated fails: on day 2 of June 2024, with no transaction and a
  budget of 1000, the remaining budget is 1000, 29 days remain, and the chart has two
  points.
\<close>

theorem empty_list_counterexample:
  "stats (currentMonthTransactions [] june2) 1000 june2 (isCurrentMonth june2 june2) june2 =
     Inr \<lparr>daysRemaining = 29, dailyAvailable = 1000 / 29, totalSpentThisMonth = 0,
          totalIncomeThisMonth = 0, remainingBudget = 1000\<rparr>
   \<and> length (chartData (currentMonthTransactions [] june2) june2 (isCurrentMonth june2 june2) june2)
     = 2"
  by (simp add: currentMonthTransactions_def stats_eval total_of_def chartData_parsed
      current_examples shown_june2 last_day_examples day_examples)

section \<open>Claims about the category breakdown\<close>

text \<open>
  Claim C5 fails on the code where an expense title names a member of
  \<open>Object.prototype\<close>. With the single expense of 30 titled \<open>__proto__\<close> the total
  expense is 30 and the category list is empty; with a second expense of 10 titled
  \<open>Tea\<close> the only slice is \<open>Tea\<close>, and the percentages add up to 25; with the single
  expense of 30 titled \<open>constructor\<close> the slice has a string for its amount and \<open>NaN\<close>
  for its percentage.
\<close>

theorem categoryStats_proto_title:
  "total_of EXPENSE proto_only = 30
   \<and> categoryStats proto_only = Inr []
   \<and> total_of EXPENSE proto_tea = 40
   \<and> categoryStats proto_tea = Inr [\<lparr>name = ''Tea'', amount = Num 10, percentage = Some 25\<rparr>]
   \<and> sum_percentages [\<lparr>name = ''Tea'', amount = Num 10, percentage = Some 25\<rparr>] = Some 25
   \<and> total_of EXPENSE proto_constructor = 30
   \<and> categoryStats proto_constructor =
       Inr [\<lparr>name = ''constructor'', amount = Str, percentage = None\<rparr>]"
proof -
  have "categoryStats proto_only = Inr []"
    by code_simp
  moreover have "categoryStats proto_tea =
                   Inr [\<lparr>name = ''Tea'', amount = Num 10, percentage = Some 25\<rparr>]"
    by code_simp
  moreover have "categoryStats proto_constructor =
                   Inr [\<lparr>name = ''constructor'', amount = Str, percentage = None\<rparr>]"
    by code_simp
  ultimately show ?thesis
    by (simp add: total_of_def proto_only_def proto_tea_def proto_constructor_def entry_sel)
qed




section \<open>Claims about the two implementations and the handlers\<close>

text \<open>
  Claim C8 fails on the code when the clock has passed into another month since the
  viewed date last changed: the later implementation reads the memoised flag
  \<open>isCurrentMonth\<close>, which the earlier one does not have (the defect of claim C3). On a
  page where February 2024 was selected on 20 January and which is still open on
  15 February, the viewed month is the month of today and both implementations select
  the same transactions; with an expense of 100 and a budget of 1000 the later
  implementation gives 0 days remaining, a daily allowance of 0 and a chart of 29
  points, the earlier one 15 days, a daily allowance of 60 and a chart of 15 points.
  With a flag computed at the time of \<open>today\<close> the two implementations agree (lemma
  \<open>old_new_fresh_flag\<close>), and the category breakdown is the same code.
\<close>

theorem old_new_stale_flag:
  "isCurrentMonth feb10 feb15 \<and> \<not> isCurrentMonth feb10 jan20
   \<and> currentMonthTransactions february feb10 = currentMonthTransactions_old february feb15
   \<and> stats (currentMonthTransactions february feb10) 1000 feb10 (isCurrentMonth feb10 jan20) feb15
       = Inr \<lparr>daysRemaining = 0, dailyAvailable = 0, totalSpentThisMonth = 100,
              totalIncomeThisMonth = 0, remainingBudget = 900\<rparr>
   \<and> stats_old (currentMonthTransactions_old february feb15) 1000 feb15
       = Inr \<lparr>daysRemaining = 15, dailyAvailable = 60, totalSpentThisMonth = 100,
              totalIncomeThisMonth = 0, remainingBudget = 900\<rparr>
   \<and> length (chartData (currentMonthTransactions february feb10) feb10
               (isCurrentMonth feb10 jan20) feb15) = 29
   \<and> length (chartData_old (currentMonthTransactions_old february feb15) feb15) = 15"
proof -
  have t: "total_of EXPENSE february = 100" "total_of INCOME february = 0"
    by (simp_all add: total_of_def february_def entry_sel)
  have new: "stats february 1000 feb10 False feb15
       = Inr \<lparr>daysRemaining = 0, dailyAvailable = 0, totalSpentThisMonth = 100,
              totalIncomeThisMonth = 0, remainingBudget = 900\<rparr>"
    by (simp add: stats_eval t)
  have old: "stats_old february 1000 feb15
       = Inr \<lparr>daysRemaining = 15, dailyAvailable = 60, totalSpentThisMonth = 100,
              totalIncomeThisMonth = 0, remainingBudget = 900\<rparr>"
    by (simp add: stats_old_eq [OF current_examples(7), symmetric] stats_eval t
        last_day_examples day_examples)
  have n: "length (chartData february feb10 False feb15) = 29"
    by (simp add: chartData_parsed shown_feb10 del: upt_Suc)
  have o: "length (chartData_old february feb15) = 15"
    by (simp add: chartData_old_parsed last_day_examples day_examples del: upt_Suc)
  show ?thesis
    by (simp add: current_examples cmt_february new old n o)
qed

text \<open>
  Claim C9 fails on the code in the date of the new transaction: it is the UTC date of
  the instant, not today's date. At 07:00 on 1 March 2024, eight hours ahead of UTC, the
  transaction added is dated 29 February in both implementations, and the view, which
  is on the current month 2024-03, does not contain it.
\<close>

theorem handleAddTransaction_utc_date:
  "getFullYear (now march1_clock) = 2024 \<and> getMonth (now march1_clock) = 2
   \<and> getDate (now march1_clock) = 1
   \<and> map Transaction.date
       (transactions
         (handleAddTransaction march1_clock (isCurrentMonth (viewDate form) (now march1_clock))
            ''id'' form))
       = [''2024-02-29'']
   \<and> viewDate
       (handleAddTransaction march1_clock (isCurrentMonth (viewDate form) (now march1_clock))
          ''id'' form)
       = now march1_clock
   \<and> currentMonthStr (now march1_clock) = ''2024-03''
   \<and> currentMonthTransactions
       (transactions
         (handleAddTransaction march1_clock (isCurrentMonth (viewDate form) (now march1_clock))
            ''id'' form))
       (viewDate
         (handleAddTransaction march1_clock (isCurrentMonth (viewDate form) (now march1_clock))
            ''id'' form))
       = []
   \<and> map Transaction.date (transactions (handleAddTransaction_old march1_clock ''id'' form_old))
       = [''2024-02-29'']"
proof -
  have n: "newTransTitle form \<noteq> []" "parseFloat (newTransAmount form) = Some 30"
          "newTransTitle form_old \<noteq> []" "parseFloat (newTransAmount form_old) = Some 30"
    by (simp_all add: form_def form_old_def parseFloat_30)
  have f: "isCurrentMonth (viewDate form) (now march1_clock) = True"
    by (simp add: isCurrentMonth_def form_def march1_clock_def)
  have t: "transactions (handleAddTransaction march1_clock True ''id'' form) =
           [\<lparr>id_t = ''id'', title = ''Coffee'', amount = 30, type = EXPENSE,
             date = ''2024-02-29'', timestamp = 1709247600000\<rparr>]"
    using handleAddTransaction_prepends [OF n(1,2), of march1_clock True "''id''"]
    by (simp add: march1_clock_def iso_date form_def)
  have t': "transactions (handleAddTransaction_old march1_clock ''id'' form_old) =
           [\<lparr>id_t = ''id'', title = ''Coffee'', amount = 30, type = EXPENSE,
             date = ''2024-02-29'', timestamp = 1709247600000\<rparr>]"
    using handleAddTransaction_old_prepends [OF n(3,4), of march1_clock "''id''"]
    by (simp add: march1_clock_def iso_date form_old_def)
  have v: "viewDate (handleAddTransaction march1_clock True ''id'' form) = march1"
    using n(1,2) by (simp add: handleAddTransaction_def Let_def form_def)
  have c: "currentMonthTransactions
             [\<lparr>id_t = ''id'', title = ''Coffee'', amount = 30, type = EXPENSE,
               date = ''2024-02-29'', timestamp = 1709247600000\<rparr>] march1 = []"
    by (simp add: currentMonthTransactions_def march_str startsWith_def)
  show ?thesis
    unfolding f
    by (simp add: t t' v c) (simp add: march1_clock_def march_str, simp add: march1_def)
qed

text \<open>
  Claim C10. Saving replaces the monthly budget by the entered value when that value
  parses to a number greater than 0 and leaves it unchanged otherwise, in both
  implementations; so a positive monthly budget is positive after every run of budget
  updates.
\<close>

theorem saveBudget_keeps_positive:
  "monthlyBudget (saveBudget st) =
     (case parseFloat (tempBudgetInput st) of
        None \<Rightarrow> monthlyBudget st
      | Some v \<Rightarrow> if 0 < v then v else monthlyBudget st)
   \<and> monthlyBudget (saveBudget_old st') =
     (case parseFloat (tempBudgetInput st') of
        None \<Rightarrow> monthlyBudget st'
      | Some v \<Rightarrow> if 0 < v then v else monthlyBudget st')
   \<and> (0 < monthlyBudget st \<longrightarrow> 0 < monthlyBudget (fold update_budget inputs st))
   \<and> (0 < monthlyBudget st' \<longrightarrow> 0 < monthlyBudget (fold update_budget_old inputs st'))"
  by (simp add: saveBudget_budget saveBudget_old_budget fold_update_budget_positive
      fold_update_budget_old_positive)

theorem saveBudget_keeps_positive_witness:
  "0 < monthlyBudget form \<and> 0 < monthlyBudget form_old
   \<and> monthlyBudget (saveBudget form) = 3000
   \<and> monthlyBudget (saveBudget_old form_old) = 3000
   \<and> monthlyBudget (fold update_budget [''-5'', ''abc'', ''12.5'', ''0'', []] form) = 12.5
   \<and> monthlyBudget (fold update_budget_old [''-5'', ''abc'', ''12.5'', ''0'', []] form_old) = 12.5
   \<and> 0 < monthlyBudget (fold update_budget [''-5'', ''abc'', ''12.5'', ''0'', []] form)
   \<and> 0 < monthlyBudget (fold update_budget_old [''-5'', ''abc'', ''12.5'', ''0'', []] form_old)"
proof -
  have p: "0 < monthlyBudget form" "0 < monthlyBudget form_old"
    by (simp_all add: form_def form_old_def)
  have e: "monthlyBudget (fold update_budget [''-5'', ''abc'', ''12.5'', ''0'', []] form) = 12.5"
    "monthlyBudget (fold update_budget_old [''-5'', ''abc'', ''12.5'', ''0'', []] form_old) = 12.5"
    by (simp_all add: update_budget_def update_budget_old_def saveBudget_def saveBudget_old_def
        parseFloat_examples form_def form_old_def)
  show ?thesis
    using saveBudget_keeps_positive [of form form_old "[''-5'', ''abc'', ''12.5'', ''0'', []]"] p e
    by (simp add: parseFloat_examples form_def form_old_def)
qed

end
